theory Spec2Isabelle
  imports Complex_Main
begin

section \<open>Python values\<close>

text \<open>
  The viewport code of \<^verbatim>\<open>src/5_sync.py\<close> computes with Python floats (the zoom level),
  Python integers (pan offsets, pixel sizes) and PIL images. Floats are modelled as
  real numbers with exact arithmetic; the integer conversion \<^verbatim>\<open>int(x)\<close> of a float
  truncates toward zero; \<^verbatim>\<open>//\<close> on integers is floor division, which is \<open>div\<close> on
  \<open>int\<close>.
\<close>

definition py_int :: "real \<Rightarrow> int" where
  "py_int x = (if x < 0 then \<lceil>x\<rceil> else \<lfloor>x\<rfloor>)"

datatype error = ZeroDivisionError | IndexError | TypeError | Exception string

fun str :: "error \<Rightarrow> string" where
  "str ZeroDivisionError = ''float division by zero''"
| "str IndexError = ''list index out of range''"
| "str TypeError = ''NoneType object is not subscriptable''"
| "str (Exception msg) = msg"

section \<open>Images, bitmaps and the object store\<close>

text \<open>
  A PIL image: its mode string, its size and the bytes that \<^verbatim>\<open>tobytes()\<close> returns
  (the bands of each pixel interleaved, row by row). PIL images are mutable objects, so
  the program state holds them in a store addressed by position; \<^verbatim>\<open>copy()\<close> allocates
  a new cell, and an in-place method overwrites a cell.
\<close>

record image =
  mode :: string
  width :: nat
  height :: nat
  data :: "nat list"

type_synonym addr = nat

text \<open>A wx bitmap: size, RGB bytes and an optional alpha plane.\<close>

record wx_bitmap =
  bm_width :: nat
  bm_height :: nat
  bm_data :: "nat list"
  bm_alpha :: "nat list option"

text \<open>
  What \<^verbatim>\<open>UpdateZoom\<close> hands to the display: either the white container-sized frame with
  the resampled source pasted at an offset (container size, offset, pasted image), or the
  original bitmap scaled to a size (the fallback when the canvas has no PIL source).
\<close>

datatype rendered =
  Composite "int \<times> int" "int \<times> int" image
| Scaled wx_bitmap "int \<times> int"

text \<open>
  The libraries the repository calls but does not contain are parameters of the model:
  the decoder behind \<^verbatim>\<open>Image.open\<close>, PIL's resampling (\<^verbatim>\<open>thumbnail\<close>, \<^verbatim>\<open>resize\<close>),
  PIL's mode conversion, writing a file, creating the rembg session (with the import of
  torch before it), the background-removal model \<^verbatim>\<open>rembg.remove\<close> on that session and
  the platform string of wx. A call that can raise returns a sum or an optional error.
\<close>

record externals =
  Image_open :: "string \<Rightarrow> error + image"
  Image_thumbnail :: "image \<Rightarrow> nat \<times> nat \<Rightarrow> image"
  Image_resize :: "image \<Rightarrow> int \<times> int \<Rightarrow> error + image"
  Image_convert :: "image \<Rightarrow> string \<Rightarrow> image"
  Image_save :: "string \<Rightarrow> image \<Rightarrow> error option"
  rembg_new_session :: "error option"
  rembg_remove :: "image \<Rightarrow> error + image"
  wx_Platform :: string

section \<open>The canvases and the application state\<close>

datatype canvas_id = left_canvas | right_canvas

text \<open>
  The fields of \<^verbatim>\<open>ZoomableStaticBitmap\<close>. \<open>GetSize\<close> is the widget's current size,
  which the layout owns; \<open>current_bitmap\<close> is what the widget displays.
\<close>

record canvas =
  zoom_level :: real
  min_zoom :: real
  max_zoom :: real
  original_bitmap :: "wx_bitmap option"
  source_pil_image :: "addr option"
  pan_x :: int
  pan_y :: int
  dragging :: bool
  last_mouse_x :: int
  last_mouse_y :: int
  mirror_canvas :: "canvas_id option"
  current_bitmap :: "rendered option"
  GetSize :: "int \<times> int"

text \<open>
  Method invocations that the mirror logic is about are recorded in \<open>calls\<close>, in the
  order they start; exceptions that leave an event handler are recorded in \<open>uncaught\<close>.
\<close>

datatype call = UpdateZoom_call canvas_id | SyncMirror_call canvas_id

record state =
  heap :: "image list"
  canvases :: "canvas_id \<Rightarrow> canvas"
  original_image :: "addr option"
  processed_image :: "addr option"
  remove_button :: bool
  explorer_button :: bool
  output_filename :: "string option"
  saved_files :: "(string \<times> image) list"
  clipboard :: "wx_bitmap option"
  message_boxes :: "string list"
  uncaught :: "error list"
  calls :: "call list"

definition set_canvas :: "state \<Rightarrow> canvas_id \<Rightarrow> canvas \<Rightarrow> state" where
  "set_canvas s self c = s\<lparr>canvases := (canvases s)(self := c)\<rparr>"

text \<open>\<^verbatim>\<open>ZoomableStaticBitmap.__init__\<close>, for a widget of the given size.\<close>

definition init_canvas :: "int \<times> int \<Rightarrow> canvas" where
  "init_canvas sz =
     \<lparr>zoom_level = 1.0, min_zoom = 0.1, max_zoom = 5.0,
      original_bitmap = None, source_pil_image = None,
      pan_x = 0, pan_y = 0, dragging = False, last_mouse_x = 0, last_mouse_y = 0,
      mirror_canvas = None, current_bitmap = None, GetSize = sz\<rparr>"

definition SetMirrorCanvas :: "state \<Rightarrow> canvas_id \<Rightarrow> canvas_id \<Rightarrow> state" where
  "SetMirrorCanvas s self canvas =
     set_canvas s self ((canvases s self)\<lparr>mirror_canvas := Some canvas\<rparr>)"

text \<open>
  \<^verbatim>\<open>BackgroundRemoverApp.__init__\<close>: two 400 by 400 canvases that mirror each other,
  no images, both action buttons disabled.
\<close>

definition init_state :: state where
  "init_state =
     SetMirrorCanvas
       (SetMirrorCanvas
          \<lparr>heap = [], canvases = (\<lambda>_. init_canvas (400, 400)),
           original_image = None, processed_image = None,
           remove_button = False, explorer_button = False,
           output_filename = None, saved_files = [], clipboard = None,
           message_boxes = [], uncaught = [], calls = []\<rparr>
          left_canvas right_canvas)
       right_canvas left_canvas"

section \<open>Viewport operations\<close>

text \<open>
  \<^verbatim>\<open>ClampPanPosition\<close>: the pan is clamped only when the canvas has a source image and
  its zoom level exceeds 1.0; otherwise the method does nothing.
\<close>

definition ClampPanPosition :: "state \<Rightarrow> canvas_id \<Rightarrow> state" where
  "ClampPanPosition s self =
     (let c = canvases s self in
      case source_pil_image c of
        None \<Rightarrow> s
      | Some a \<Rightarrow>
          if zoom_level c > 1.0 then
            let container_width = fst (GetSize c);
                container_height = snd (GetSize c);
                image_width = py_int (real (width (heap s ! a)) * zoom_level c);
                image_height = py_int (real (height (heap s ! a)) * zoom_level c);
                max_pan_x = max 0 ((image_width - container_width) div 2);
                max_pan_y = max 0 ((image_height - container_height) div 2)
            in set_canvas s self
                 (c\<lparr>pan_x := max (min (pan_x c) max_pan_x) (- max_pan_x),
                    pan_y := max (min (pan_y c) max_pan_y) (- max_pan_y)\<rparr>)
          else s)"

text \<open>
  \<^verbatim>\<open>UpdateZoom\<close> renders the canvas. It reads zoom, pan and the source and writes only
  the displayed bitmap; the copy it resamples is a temporary that never leaves the
  method, so no cell is allocated for it. Every exception inside is caught and printed,
  and the display then keeps what it showed. \<open>render\<close> is the bitmap displayed after
  the call.
\<close>

definition render :: "externals \<Rightarrow> image list \<Rightarrow> canvas \<Rightarrow> rendered option" where
  "render ext h c =
     (case source_pil_image c of
        Some a \<Rightarrow>
          (let new_width = py_int (real (width (h ! a)) * zoom_level c);
               new_height = py_int (real (height (h ! a)) * zoom_level c);
               container_width = fst (GetSize c);
               container_height = snd (GetSize c);
               x_offset = (container_width - new_width) div 2;
               y_offset = (container_height - new_height) div 2;
               x_offset = (if zoom_level c > 1.0 then x_offset + pan_x c else x_offset);
               y_offset = (if zoom_level c > 1.0 then y_offset + pan_y c else y_offset)
           in case Image_resize ext (h ! a) (new_width, new_height) of
                Inl e \<Rightarrow> current_bitmap c
              | Inr resized_image \<Rightarrow>
                  Some (Composite (container_width, container_height)
                          (x_offset, y_offset) resized_image))
      | None \<Rightarrow>
          (case original_bitmap c of
             Some b \<Rightarrow>
               (let new_width = py_int (real (bm_width b) * zoom_level c);
                    new_height = py_int (real (bm_height b) * zoom_level c)
                in Some (Scaled b (new_width, new_height)))
           | None \<Rightarrow> current_bitmap c))"

definition UpdateZoom :: "externals \<Rightarrow> state \<Rightarrow> canvas_id \<Rightarrow> state" where
  "UpdateZoom ext s self =
     (set_canvas s self
        ((canvases s self)\<lparr>current_bitmap := render ext (heap s) (canvases s self)\<rparr>))
     \<lparr>calls := calls s @ [UpdateZoom_call self]\<rparr>"

text \<open>
  \<^verbatim>\<open>SyncMirror\<close>: when there is a mirror canvas and it holds a source image, zoom and
  pan are assigned to it field by field and it is rendered again. The mirror's own
  \<^verbatim>\<open>SyncMirror\<close> is not called.
\<close>

definition SyncMirror :: "externals \<Rightarrow> state \<Rightarrow> canvas_id \<Rightarrow> state" where
  "SyncMirror ext s0 self =
     (let s = s0\<lparr>calls := calls s0 @ [SyncMirror_call self]\<rparr> in
      case mirror_canvas (canvases s self) of
        None \<Rightarrow> s
      | Some m \<Rightarrow>
          (case source_pil_image (canvases s m) of
             None \<Rightarrow> s
           | Some _ \<Rightarrow>
               (let s1 = set_canvas s m ((canvases s m)\<lparr>zoom_level := zoom_level (canvases s self)\<rparr>);
                    s2 = set_canvas s1 m ((canvases s1 m)\<lparr>pan_x := pan_x (canvases s1 self)\<rparr>);
                    s3 = set_canvas s2 m ((canvases s2 m)\<lparr>pan_y := pan_y (canvases s2 self)\<rparr>)
                in UpdateZoom ext s3 m)))"

text \<open>The fields of a wx mouse event that the handlers read.\<close>

record mouse_event =
  ControlDown :: bool
  GetWheelRotation :: int
  GetX :: int
  GetY :: int
  LeftIsDown :: bool

definition OnMouseDown :: "state \<Rightarrow> canvas_id \<Rightarrow> mouse_event \<Rightarrow> state" where
  "OnMouseDown s self event =
     (let c = canvases s self in
      if zoom_level c > 1.0 then
        set_canvas s self
          (c\<lparr>dragging := True, last_mouse_x := GetX event, last_mouse_y := GetY event\<rparr>)
      else s)"

definition OnMouseUp :: "state \<Rightarrow> canvas_id \<Rightarrow> mouse_event \<Rightarrow> state" where
  "OnMouseUp s self event = set_canvas s self ((canvases s self)\<lparr>dragging := False\<rparr>)"

definition OnMouseMove :: "externals \<Rightarrow> state \<Rightarrow> canvas_id \<Rightarrow> mouse_event \<Rightarrow> state" where
  "OnMouseMove ext s self event =
     (let c = canvases s self in
      if dragging c \<and> LeftIsDown event then
        let dx = GetX event - last_mouse_x c;
            dy = GetY event - last_mouse_y c;
            s1 = set_canvas s self
                   (c\<lparr>pan_x := pan_x c + dx, pan_y := pan_y c + dy,
                      last_mouse_x := GetX event, last_mouse_y := GetY event\<rparr>);
            s2 = ClampPanPosition s1 self;
            s3 = UpdateZoom ext s2 self
        in SyncMirror ext s3 self
      else s)"

text \<open>
  \<^verbatim>\<open>OnMouseWheel\<close>. The quotient \<^verbatim>\<open>new_zoom / old_zoom\<close> raises ZeroDivisionError
  for a zero zoom level, before any field is assigned; the exception leaves the handler.
\<close>

definition OnMouseWheel :: "externals \<Rightarrow> state \<Rightarrow> canvas_id \<Rightarrow> mouse_event \<Rightarrow> state" where
  "OnMouseWheel ext s self event =
     (if ControlDown event then
        let c = canvases s self;
            delta = (if wx_Platform ext = ''__WXMAC__''
                     then real_of_int (GetWheelRotation event)
                     else real_of_int (GetWheelRotation event) / 120);
            old_zoom = zoom_level c;
            zoom_factor = (if delta > 0 then 1.1 else 0.9);
            new_zoom = zoom_level c * zoom_factor;
            new_zoom = max (min_zoom c) (min (max_zoom c) new_zoom)
        in if new_zoom \<noteq> zoom_level c then
             if old_zoom = 0 then s\<lparr>uncaught := uncaught s @ [ZeroDivisionError]\<rparr>
             else
               let mouse_x = GetX event;
                   mouse_y = GetY event;
                   c1 = (if old_zoom \<noteq> new_zoom then
                           c\<lparr>pan_x := py_int (real_of_int mouse_x
                                  - real_of_int (mouse_x - pan_x c) * (new_zoom / old_zoom)),
                             pan_y := py_int (real_of_int mouse_y
                                  - real_of_int (mouse_y - pan_y c) * (new_zoom / old_zoom))\<rparr>
                         else c);
                   s1 = set_canvas s self (c1\<lparr>zoom_level := new_zoom\<rparr>);
                   s2 = ClampPanPosition s1 self;
                   s3 = UpdateZoom ext s2 self
               in SyncMirror ext s3 self
           else s
      else s)"

text \<open>
  \<^verbatim>\<open>SetBitmap\<close>: the canvas keeps a private copy of the PIL image it is given (a new
  cell of the store) and resets zoom and pan before rendering.
\<close>

definition SetBitmap :: "externals \<Rightarrow> state \<Rightarrow> canvas_id \<Rightarrow> wx_bitmap \<Rightarrow> addr option \<Rightarrow> state" where
  "SetBitmap ext s self bitmap pil_image =
     (let s1 = set_canvas s self ((canvases s self)\<lparr>original_bitmap := Some bitmap\<rparr>);
          s2 = (case pil_image of
                  None \<Rightarrow> s1
                | Some p \<Rightarrow>
                    set_canvas (s1\<lparr>heap := heap s1 @ [heap s1 ! p]\<rparr>) self
                      ((canvases s1 self)\<lparr>source_pil_image := Some (length (heap s1))\<rparr>));
          s3 = set_canvas s2 self ((canvases s2 self)\<lparr>zoom_level := 1.0, pan_x := 0, pan_y := 0\<rparr>)
      in UpdateZoom ext s3 self)"

section \<open>Module-level functions\<close>

text \<open>The alpha plane of RGBA bytes: every fourth byte.\<close>

fun getchannel_A :: "nat list \<Rightarrow> nat list" where
  "getchannel_A (r # g # b # a # rest) = a # getchannel_A rest"
| "getchannel_A _ = []"

text \<open>
  \<^verbatim>\<open>image.getextrema()[3][0]\<close> of an RGBA image, the least alpha value. For an image
  without pixels PIL reports no extrema for a band (\<^verbatim>\<open>None\<close>), and indexing it raises.
\<close>

definition getextrema_3_0 :: "image \<Rightarrow> error + nat" where
  "getextrema_3_0 im =
     (case getchannel_A (data im) of
        [] \<Rightarrow> Inl TypeError
      | a # as \<Rightarrow> Inr (fold min as a))"

text \<open>
  \<^verbatim>\<open>remove_background\<close>. The result is the argument object itself when nothing is
  removed, and a new object (a new cell) holding the output of rembg otherwise.
\<close>

definition remove_background ::
  "externals \<Rightarrow> image list \<Rightarrow> addr \<Rightarrow> bool \<Rightarrow> error + image list \<times> addr" where
  "remove_background ext h img force =
     (case (if mode (h ! img) = ''RGBA''
            then (case getextrema_3_0 (h ! img) of
                    Inl e \<Rightarrow> Inl e
                  | Inr lo \<Rightarrow> Inr (\<not> lo < 255))
            else Inr True) of
        Inl e \<Rightarrow> Inl e
      | Inr do_remove0 \<Rightarrow>
          (let do_remove = (do_remove0 \<or> force) in
           if do_remove then
             (case rembg_remove ext (h ! img) of
                Inl e \<Rightarrow> Inl e
              | Inr r \<Rightarrow> Inr (h @ [r], length h))
           else Inr (h, img)))"

text \<open>
  \<^verbatim>\<open>resize_image_with_aspect_ratio\<close>: \<^verbatim>\<open>thumbnail\<close> resizes the object in place and
  the function returns the object it was given.
\<close>

definition resize_image_with_aspect_ratio ::
  "externals \<Rightarrow> image list \<Rightarrow> addr \<Rightarrow> nat \<times> nat \<Rightarrow> image list \<times> addr" where
  "resize_image_with_aspect_ratio ext h img target_size =
     (h[img := Image_thumbnail ext (h ! img) target_size], img)"

definition save_final_image :: "externals \<Rightarrow> state \<Rightarrow> addr \<Rightarrow> string \<Rightarrow> error + state" where
  "save_final_image ext s img output_path =
     (let im = (if mode (heap s ! img) \<noteq> ''RGBA''
                then Image_convert ext (heap s ! img) ''RGBA'' else heap s ! img);
          out_loc = ''output/'' @ output_path
      in case Image_save ext out_loc im of
           Some e \<Rightarrow> Inl e
         | None \<Rightarrow> Inr (s\<lparr>saved_files := saved_files s @ [(out_loc, im)]\<rparr>))"

section \<open>Copy, paste, drop and the frame\<close>

text \<open>
  \<^verbatim>\<open>OnCopy\<close>: a copy of the source, converted to RGB unless it already is RGB, goes to
  the clipboard when the clipboard can be opened.
\<close>

definition OnCopy :: "externals \<Rightarrow> state \<Rightarrow> canvas_id \<Rightarrow> bool \<Rightarrow> state" where
  "OnCopy ext s self clipboard_opens =
     (case source_pil_image (canvases s self) of
        None \<Rightarrow> s
      | Some a \<Rightarrow>
          (let img = heap s ! a;
               img = (if mode img \<noteq> ''RGB'' then Image_convert ext img ''RGB'' else img);
               bitmap = \<lparr>bm_width = width img, bm_height = height img,
                         bm_data = data img, bm_alpha = None\<rparr>
           in if clipboard_opens then s\<lparr>clipboard := Some bitmap\<rparr> else s))"

text \<open>
  \<^verbatim>\<open>display_image\<close>: the bitmap shown at first is a 400 by 400 thumbnail of a copy; the
  canvas receives that bitmap together with the PIL image itself.
\<close>

definition display_image :: "externals \<Rightarrow> state \<Rightarrow> canvas_id \<Rightarrow> addr \<Rightarrow> state" where
  "display_image ext s canvas pil_image =
     (let img = Image_thumbnail ext (heap s ! pil_image) (400, 400);
          wx_image =
            (if mode img = ''RGBA'' then
               \<lparr>bm_width = width img, bm_height = height img,
                bm_data = data (Image_convert ext img ''RGB''),
                bm_alpha = Some (getchannel_A (data img))\<rparr>
             else
               \<lparr>bm_width = width img, bm_height = height img,
                bm_data = data (Image_convert ext img ''RGB''),
                bm_alpha = None\<rparr>);
          s1 = set_canvas s canvas ((canvases s canvas)\<lparr>zoom_level := 1.0\<rparr>)
      in SetBitmap ext s1 canvas wx_image (Some pil_image))"

text \<open>\<^verbatim>\<open>Image.frombytes("RGB", (width, height), buffer)\<close> of a wx bitmap.\<close>

definition frombytes_RGB :: "wx_bitmap \<Rightarrow> image" where
  "frombytes_RGB bitmap =
     \<lparr>mode = ''RGB'', width = bm_width bitmap, height = bm_height bitmap,
      data = bm_data bitmap\<rparr>"

text \<open>
  The three statements that paste, drop and load share: the new object becomes the
  frame's \<^verbatim>\<open>original_image\<close>, is displayed on the left canvas, and the remove button
  is enabled.
\<close>

definition install_original :: "externals \<Rightarrow> state \<Rightarrow> image \<Rightarrow> state" where
  "install_original ext s im =
     (let pil_image = length (heap s);
          s1 = s\<lparr>heap := heap s @ [im], original_image := Some pil_image\<rparr>;
          s2 = display_image ext s1 left_canvas pil_image
      in s2\<lparr>remove_button := True\<rparr>)"

definition OnPaste :: "externals \<Rightarrow> state \<Rightarrow> bool \<Rightarrow> state" where
  "OnPaste ext s clipboard_opens =
     (if clipboard_opens then
        (case clipboard s of
           None \<Rightarrow> s
         | Some bitmap \<Rightarrow> install_original ext s (frombytes_RGB bitmap))
      else s)"

text \<open>
  What a drop delivers: nothing, bitmap data, or a list of file names. For a file name
  the handler guards \<^verbatim>\<open>Image.open\<close> and what follows it with \<^verbatim>\<open>try\<close>; the model's
  decoder stands for opening and decoding together. (PIL can also report a damaged file
  only when the pixels are first loaded, which happens in the \<^verbatim>\<open>copy()\<close> that begins
  \<^verbatim>\<open>display_image\<close>: still inside the \<^verbatim>\<open>try\<close> and before any canvas field is
  assigned, though after the frame's \<^verbatim>\<open>original_image\<close> was set.)
\<close>

datatype drop_data = No_data | DF_BITMAP wx_bitmap | DF_FILENAME "string list"

definition OnData :: "externals \<Rightarrow> state \<Rightarrow> drop_data \<Rightarrow> state" where
  "OnData ext s dropped =
     (case dropped of
        No_data \<Rightarrow> s
      | DF_BITMAP bitmap \<Rightarrow> install_original ext s (frombytes_RGB bitmap)
      | DF_FILENAME filenames \<Rightarrow>
          (case filenames of
             [] \<Rightarrow> s\<lparr>uncaught := uncaught s @ [IndexError]\<rparr>
           | filename # _ \<Rightarrow>
               (case Image_open ext filename of
                  Inl e \<Rightarrow>
                    s\<lparr>message_boxes := message_boxes s @ [''Error loading image: '' @ str e]\<rparr>
                | Inr im \<Rightarrow> install_original ext s im)))"

text \<open>
  \<^verbatim>\<open>on_load_image\<close>, given what the file dialog returned (\<open>None\<close> when cancelled).
  \<^verbatim>\<open>Image.open\<close> is not guarded here.
\<close>

definition on_load_image :: "externals \<Rightarrow> state \<Rightarrow> string option \<Rightarrow> state" where
  "on_load_image ext s chosen =
     (case chosen of
        None \<Rightarrow> s
      | Some input_path \<Rightarrow>
          (case Image_open ext input_path of
             Inl e \<Rightarrow> s\<lparr>uncaught := uncaught s @ [e]\<rparr>
           | Inr im \<Rightarrow> install_original ext s im))"

text \<open>
  \<^verbatim>\<open>on_remove_background\<close>, given the timestamp string. The \<^verbatim>\<open>except\<close> clause shows
  a message box and the \<^verbatim>\<open>finally\<close> clause enables the remove button again, whatever
  was done before the exception.
\<close>

definition processing_failed :: "state \<Rightarrow> error \<Rightarrow> state" where
  "processing_failed s e =
     s\<lparr>message_boxes := message_boxes s @ [''Error processing image: '' @ str e],
       remove_button := True\<rparr>"

definition on_remove_background :: "externals \<Rightarrow> state \<Rightarrow> string \<Rightarrow> state" where
  "on_remove_background ext s timestamp =
     (case original_image s of
        None \<Rightarrow> s\<lparr>message_boxes := message_boxes s @ [''Please load an image first.'']\<rparr>
      | Some original \<Rightarrow>
          (let s1 = s\<lparr>remove_button := False, explorer_button := False\<rparr> in
           case rembg_new_session ext of
             Some e \<Rightarrow> processing_failed s1 e
           | None \<Rightarrow>
               (let (h1, resized_image) =
                      resize_image_with_aspect_ratio ext (heap s1) original (1280, 1280);
                    s2 = s1\<lparr>heap := h1\<rparr>
                in case remove_background ext h1 resized_image False of
                     Inl e \<Rightarrow> processing_failed s2 e
                   | Inr (h2, processed) \<Rightarrow>
                       (let s3 = s2\<lparr>heap := h2, processed_image := Some processed\<rparr>;
                            s4 = display_image ext s3 right_canvas processed;
                            name = ''no_background_'' @ timestamp @ ''.png'';
                            s5 = s4\<lparr>output_filename := Some name\<rparr>
                        in case save_final_image ext s5 processed name of
                             Inl e \<Rightarrow> processing_failed s5 e
                           | Inr s6 \<Rightarrow> s6\<lparr>explorer_button := True, remove_button := True\<rparr>))))"

section \<open>Runs of events\<close>

text \<open>A sequence of wheel events, each delivered to one of the two canvases.\<close>

fun wheel_events :: "externals \<Rightarrow> state \<Rightarrow> (canvas_id \<times> mouse_event) list \<Rightarrow> state" where
  "wheel_events ext s [] = s"
| "wheel_events ext s ((self, event) # rest) =
     wheel_events ext (OnMouseWheel ext s self event) rest"

text \<open>
  What the wx event loop can deliver to the application: the four mouse events of a
  canvas, the copy menu entry of a canvas, paste, a drop on the left canvas, and the
  two buttons. \<open>dispatch\<close> calls the handler bound to the event.
\<close>

datatype event =
  EVT_MOUSEWHEEL canvas_id mouse_event
| EVT_LEFT_DOWN canvas_id mouse_event
| EVT_LEFT_UP canvas_id mouse_event
| EVT_MOTION canvas_id mouse_event
| Menu_copy canvas_id bool
| Menu_paste bool
| Dropped drop_data
| Load_button "string option"
| Remove_button string

fun dispatch :: "externals \<Rightarrow> state \<Rightarrow> event \<Rightarrow> state" where
  "dispatch ext s (EVT_MOUSEWHEEL self e) = OnMouseWheel ext s self e"
| "dispatch ext s (EVT_LEFT_DOWN self e) = OnMouseDown s self e"
| "dispatch ext s (EVT_LEFT_UP self e) = OnMouseUp s self e"
| "dispatch ext s (EVT_MOTION self e) = OnMouseMove ext s self e"
| "dispatch ext s (Menu_copy self opens) = OnCopy ext s self opens"
| "dispatch ext s (Menu_paste opens) = OnPaste ext s opens"
| "dispatch ext s (Dropped d) = OnData ext s d"
| "dispatch ext s (Load_button chosen) = on_load_image ext s chosen"
| "dispatch ext s (Remove_button timestamp) = on_remove_background ext s timestamp"

fun run :: "externals \<Rightarrow> state \<Rightarrow> event list \<Rightarrow> state" where
  "run ext s [] = s"
| "run ext s (e # es) = run ext (dispatch ext s e) es"

section \<open>Quantities named in the specification\<close>

text \<open>
  The maximum pan distance that \<^verbatim>\<open>ClampPanPosition\<close> computes for one axis, from the
  source dimension, the zoom level and the container dimension.
\<close>

definition max_pan :: "nat \<Rightarrow> real \<Rightarrow> int \<Rightarrow> int" where
  "max_pan d z container = max 0 ((py_int (real d * z) - container) div 2)"



text \<open>
  The anchored pan of the specification's \<open>Zoom\<close> for one axis, before clamping:
  \<open>anchor - (anchor - pan) \<times> (zoom' / zoom)\<close>.
\<close>

definition spec_anchored_pan :: "int \<Rightarrow> int \<Rightarrow> real \<Rightarrow> real \<Rightarrow> real" where
  "spec_anchored_pan anchor pan z' z =
     real_of_int anchor - (real_of_int anchor - real_of_int pan) * (z' / z)"

text \<open>The zoom that a wheel event asks for, clamped to the canvas's range.\<close>

definition wheel_zoom :: "externals \<Rightarrow> canvas \<Rightarrow> mouse_event \<Rightarrow> real" where
  "wheel_zoom ext c event =
     (let delta = (if wx_Platform ext = ''__WXMAC__''
                   then real_of_int (GetWheelRotation event)
                   else real_of_int (GetWheelRotation event) / 120);
          zoom_factor = (if delta > 0 then 1.1 else 0.9)
      in max (min_zoom c) (min (max_zoom c) (zoom_level c * zoom_factor)))"

section \<open>A concrete instance of the external libraries\<close>

text \<open>
  The theorems below hold for every behaviour of the external libraries. To evaluate
  the model on concrete inputs, the examples use the following instance: one file
  decodes, resampling is nearest-neighbour, conversion between RGB and RGBA drops or
  adds an opaque alpha byte, and the background model makes white pixels transparent.
\<close>

fun rgba_to_rgb :: "nat list \<Rightarrow> nat list" where
  "rgba_to_rgb (r # g # b # a # rest) = r # g # b # rgba_to_rgb rest"
| "rgba_to_rgb _ = []"

fun rgb_to_rgba :: "nat list \<Rightarrow> nat list" where
  "rgb_to_rgba (r # g # b # rest) = r # g # b # 255 # rgb_to_rgba rest"
| "rgb_to_rgba _ = []"

fun white_to_transparent :: "nat list \<Rightarrow> nat list" where
  "white_to_transparent (r # g # b # a # rest) =
     r # g # b # (if r = 255 \<and> g = 255 \<and> b = 255 then 0 else a) # white_to_transparent rest"
| "white_to_transparent _ = []"

definition convert_example :: "image \<Rightarrow> string \<Rightarrow> image" where
  "convert_example im m =
     (if mode im = ''RGBA'' \<and> m = ''RGB'' then im\<lparr>mode := m, data := rgba_to_rgb (data im)\<rparr>
      else if mode im = ''RGB'' \<and> m = ''RGBA'' then im\<lparr>mode := m, data := rgb_to_rgba (data im)\<rparr>
      else im)"

definition resample_nearest :: "image \<Rightarrow> nat \<times> nat \<Rightarrow> image" where
  "resample_nearest im sz =
     (let w = fst sz; h = snd sz;
          bands = length (data im) div (width im * height im)
      in im\<lparr>width := w, height := h,
            data := concat (map (\<lambda>y. concat (map (\<lambda>x.
                      take bands
                        (drop ((((2 * y + 1) * height im) div (2 * h) * width im
                                + ((2 * x + 1) * width im) div (2 * w)) * bands)
                           (data im)))
                      [0..<w])) [0..<h])\<rparr>)"

definition thumbnail_example :: "image \<Rightarrow> nat \<times> nat \<Rightarrow> image" where
  "thumbnail_example im sz =
     (let x = fst sz; y = snd sz in
      if x \<ge> width im \<and> y \<ge> height im then im
      else if x * height im \<ge> y * width im
      then resample_nearest im (max 1 (y * width im div height im), y)
      else resample_nearest im (x, max 1 (x * height im div width im)))"

definition example_externals :: externals where
  "example_externals =
     \<lparr>Image_open = (\<lambda>filename.
         if filename = ''photo.png''
         then Inr \<lparr>mode = ''RGB'', width = 2, height = 1, data = [255, 255, 255, 10, 20, 30]\<rparr>
         else Inl (Exception (''cannot identify image file '' @ filename))),
      Image_thumbnail = thumbnail_example,
      Image_resize = (\<lambda>im sz.
         if fst sz < 1 \<or> snd sz < 1 then Inl (Exception ''height and width must be > 0'')
         else Inr (resample_nearest im (nat (fst sz), nat (snd sz)))),
      Image_convert = convert_example,
      Image_save = (\<lambda>path im. None),
      rembg_new_session = None,
      rembg_remove = (\<lambda>im.
         Inr ((convert_example im ''RGBA'')
                \<lparr>data := white_to_transparent (data (convert_example im ''RGBA''))\<rparr>)),
      wx_Platform = ''__WXMSW__''\<rparr>"

section \<open>Example inputs\<close>

text \<open>A wheel event with Ctrl held, and a plain mouse event, at a position.\<close>

definition ctrl_wheel :: "int \<Rightarrow> int \<Rightarrow> int \<Rightarrow> mouse_event" where
  "ctrl_wheel rotation x y =
     \<lparr>ControlDown = True, GetWheelRotation = rotation, GetX = x, GetY = y, LeftIsDown = False\<rparr>"

definition mouse_at :: "int \<Rightarrow> int \<Rightarrow> bool \<Rightarrow> mouse_event" where
  "mouse_at x y left_down =
     \<lparr>ControlDown = False, GetWheelRotation = 0, GetX = x, GetY = y, LeftIsDown = left_down\<rparr>"

text \<open>An opaque-looking RGB bitmap of 4 by 3 pixels: one white pixel, the others grey.\<close>

definition example_bitmap :: wx_bitmap where
  "example_bitmap =
     \<lparr>bm_width = 4, bm_height = 3,
      bm_data = [255, 255, 255] @ concat (replicate 11 [90, 90, 90]),
      bm_alpha = None\<rparr>"


text \<open>
  The application with both canvases laid out at 2 by 2 pixels, after the bitmap was
  dropped on it; then after the background was removed as well, so that both canvases
  hold an image.
\<close>

definition example_loaded :: state where
  "example_loaded =
     OnData example_externals
       (init_state\<lparr>canvases := (\<lambda>c. (canvases init_state c)\<lparr>GetSize := (2, 2)\<rparr>)\<rparr>)
       (DF_BITMAP example_bitmap)"

definition example_processed :: state where
  "example_processed = on_remove_background example_externals example_loaded ''20240101_120000''"


section \<open>Invariants\<close>

text \<open>Every canvas keeps the zoom range of its constructor and a zoom level inside it.\<close>

definition zoom_inv :: "state \<Rightarrow> bool" where
  "zoom_inv s \<longleftrightarrow>
     (\<forall>c. min_zoom (canvases s c) = 0.1 \<and> max_zoom (canvases s c) = 5.0 \<and>
          0.1 \<le> zoom_level (canvases s c) \<and> zoom_level (canvases s c) \<le> 5.0)"


text \<open>
  A cell is private when it is allocated and neither of the frame's two image
  attributes refers to it. The frame's attributes refer to allocated cells, and the
  source image of each canvas is a private cell.
\<close>

definition private_cell :: "state \<Rightarrow> addr \<Rightarrow> bool" where
  "private_cell s a \<longleftrightarrow>
     a < length (heap s) \<and> original_image s \<noteq> Some a \<and> processed_image s \<noteq> Some a"

definition allocated :: "state \<Rightarrow> addr option \<Rightarrow> bool" where
  "allocated s r = (case r of None \<Rightarrow> True | Some a \<Rightarrow> a < length (heap s))"

definition owns :: "state \<Rightarrow> canvas_id \<Rightarrow> bool" where
  "owns s c = (case source_pil_image (canvases s c) of None \<Rightarrow> True | Some a \<Rightarrow> private_cell s a)"

definition sources_private :: "state \<Rightarrow> bool" where
  "sources_private s \<longleftrightarrow>
     allocated s (original_image s) \<and> allocated s (processed_image s) \<and>
     owns s left_canvas \<and> owns s right_canvas"

text \<open>The method invocations recorded between two states.\<close>

definition new_calls :: "state \<Rightarrow> state \<Rightarrow> call list" where
  "new_calls s s' = drop (length (calls s)) (calls s')"

section \<open>Basic facts about the operations\<close>

lemma set_canvas_simps [simp]:
  "canvases (set_canvas s c x) = (canvases s)(c := x)"
  "heap (set_canvas s c x) = heap s"
  "calls (set_canvas s c x) = calls s"
  "original_image (set_canvas s c x) = original_image s"
  "processed_image (set_canvas s c x) = processed_image s"
  "clipboard (set_canvas s c x) = clipboard s"
  "message_boxes (set_canvas s c x) = message_boxes s"
  "uncaught (set_canvas s c x) = uncaught s"
  by (simp_all add: set_canvas_def)

lemma set_canvas_same [simp]: "set_canvas s c (canvases s c) = s"
  by (simp add: set_canvas_def)

lemma set_canvas_twice [simp]: "set_canvas (set_canvas s c x) c y = set_canvas s c y"
  by (simp add: set_canvas_def)

lemma ClampPanPosition_max_pan:
  "ClampPanPosition s self =
     (case source_pil_image (canvases s self) of
        None \<Rightarrow> s
      | Some a \<Rightarrow>
          if zoom_level (canvases s self) > 1.0 then
            set_canvas s self ((canvases s self)
              \<lparr>pan_x := max (min (pan_x (canvases s self))
                              (max_pan (width (heap s ! a)) (zoom_level (canvases s self))
                                 (fst (GetSize (canvases s self)))))
                           (- max_pan (width (heap s ! a)) (zoom_level (canvases s self))
                                 (fst (GetSize (canvases s self)))),
               pan_y := max (min (pan_y (canvases s self))
                              (max_pan (height (heap s ! a)) (zoom_level (canvases s self))
                                 (snd (GetSize (canvases s self)))))
                           (- max_pan (height (heap s ! a)) (zoom_level (canvases s self))
                                 (snd (GetSize (canvases s self))))\<rparr>)
          else s)"
  unfolding ClampPanPosition_def max_pan_def Let_def by (rule refl)

lemma ClampPanPosition_shape:
  "ClampPanPosition s self =
     set_canvas s self ((canvases s self)
       \<lparr>pan_x := pan_x (canvases (ClampPanPosition s self) self),
        pan_y := pan_y (canvases (ClampPanPosition s self) self)\<rparr>)"
  by (simp add: ClampPanPosition_max_pan split: option.splits)

lemma UpdateZoom_simps [simp]:
  "canvases (UpdateZoom ext s self) =
     (canvases s)(self := (canvases s self)\<lparr>current_bitmap := render ext (heap s) (canvases s self)\<rparr>)"
  "heap (UpdateZoom ext s self) = heap s"
  "calls (UpdateZoom ext s self) = calls s @ [UpdateZoom_call self]"
  "original_image (UpdateZoom ext s self) = original_image s"
  "processed_image (UpdateZoom ext s self) = processed_image s"
  "clipboard (UpdateZoom ext s self) = clipboard s"
  "message_boxes (UpdateZoom ext s self) = message_boxes s"
  "uncaught (UpdateZoom ext s self) = uncaught s"
  by (simp_all add: UpdateZoom_def)

lemma SyncMirror_shape:
  "SyncMirror ext s self =
     (case mirror_canvas (canvases s self) of
        None \<Rightarrow> s\<lparr>calls := calls s @ [SyncMirror_call self]\<rparr>
      | Some m \<Rightarrow>
          (case source_pil_image (canvases s m) of
             None \<Rightarrow> s\<lparr>calls := calls s @ [SyncMirror_call self]\<rparr>
           | Some a \<Rightarrow>
               UpdateZoom ext
                 (set_canvas (s\<lparr>calls := calls s @ [SyncMirror_call self]\<rparr>) m
                    ((canvases s m)\<lparr>zoom_level := zoom_level (canvases s self),
                                     pan_x := pan_x (canvases s self),
                                     pan_y := pan_y (canvases s self)\<rparr>)) m))"
  by (cases "mirror_canvas (canvases s self) = Some self")
     (auto simp add: SyncMirror_def Let_def split: option.splits)

lemma ClampPanPosition_simps [simp]:
  "heap (ClampPanPosition s self) = heap s"
  "calls (ClampPanPosition s self) = calls s"
  "original_image (ClampPanPosition s self) = original_image s"
  "processed_image (ClampPanPosition s self) = processed_image s"
  "clipboard (ClampPanPosition s self) = clipboard s"
  "message_boxes (ClampPanPosition s self) = message_boxes s"
  "uncaught (ClampPanPosition s self) = uncaught s"
  by (subst ClampPanPosition_shape, simp)+

lemma ClampPanPosition_other [simp]:
  "c \<noteq> self \<Longrightarrow> canvases (ClampPanPosition s self) c = canvases s c"
  by (subst ClampPanPosition_shape) simp

lemma ClampPanPosition_fields [simp]:
  "zoom_level (canvases (ClampPanPosition s self) c) = zoom_level (canvases s c)"
  "min_zoom (canvases (ClampPanPosition s self) c) = min_zoom (canvases s c)"
  "max_zoom (canvases (ClampPanPosition s self) c) = max_zoom (canvases s c)"
  "source_pil_image (canvases (ClampPanPosition s self) c) = source_pil_image (canvases s c)"
  "mirror_canvas (canvases (ClampPanPosition s self) c) = mirror_canvas (canvases s c)"
  "GetSize (canvases (ClampPanPosition s self) c) = GetSize (canvases s c)"
  "original_bitmap (canvases (ClampPanPosition s self) c) = original_bitmap (canvases s c)"
  "current_bitmap (canvases (ClampPanPosition s self) c) = current_bitmap (canvases s c)"
  "dragging (canvases (ClampPanPosition s self) c) = dragging (canvases s c)"
  "last_mouse_x (canvases (ClampPanPosition s self) c) = last_mouse_x (canvases s c)"
  "last_mouse_y (canvases (ClampPanPosition s self) c) = last_mouse_y (canvases s c)"
  by (subst ClampPanPosition_shape, simp)+

lemma OnMouseWheel_shape:
  "OnMouseWheel ext s self event =
     (if ControlDown event \<and> wheel_zoom ext (canvases s self) event \<noteq> zoom_level (canvases s self) then
        if zoom_level (canvases s self) = 0 then s\<lparr>uncaught := uncaught s @ [ZeroDivisionError]\<rparr>
        else
          SyncMirror ext
            (UpdateZoom ext
               (ClampPanPosition
                  (set_canvas s self
                     ((canvases s self)
                        \<lparr>pan_x := py_int (spec_anchored_pan (GetX event) (pan_x (canvases s self))
                                   (wheel_zoom ext (canvases s self) event) (zoom_level (canvases s self))),
                         pan_y := py_int (spec_anchored_pan (GetY event) (pan_y (canvases s self))
                                   (wheel_zoom ext (canvases s self) event) (zoom_level (canvases s self))),
                         zoom_level := wheel_zoom ext (canvases s self) event\<rparr>))
                  self)
               self)
            self
      else s)"
proof -
  define N where "N = wheel_zoom ext (canvases s self) event"
  have N: "max (min_zoom (canvases s self))
             (min (max_zoom (canvases s self))
                (zoom_level (canvases s self) *
                   (if (if wx_Platform ext = ''__WXMAC__''
                        then real_of_int (GetWheelRotation event)
                        else real_of_int (GetWheelRotation event) / 120) > 0
                    then 1.1 else 0.9))) = N"
    unfolding N_def wheel_zoom_def Let_def by (rule refl)
  show ?thesis
    unfolding OnMouseWheel_def Let_def N spec_anchored_pan_def N_def[symmetric]
    by (cases "N = zoom_level (canvases s self)") (simp_all add: of_int_diff)
qed

lemma wheel_zoom_range:
  "min_zoom c \<le> max_zoom c \<Longrightarrow>
     min_zoom c \<le> wheel_zoom ext c event \<and> wheel_zoom ext c event \<le> max_zoom c"
  by (simp add: wheel_zoom_def Let_def)

lemma OnMouseWheel_noop:
  "\<not> ControlDown event \<or> wheel_zoom ext (canvases s self) event = zoom_level (canvases s self)
   \<Longrightarrow> OnMouseWheel ext s self event = s"
  by (subst OnMouseWheel_shape) auto

lemma OnMouseWheel_zero:
  "ControlDown event \<Longrightarrow> wheel_zoom ext (canvases s self) event \<noteq> zoom_level (canvases s self)
   \<Longrightarrow> zoom_level (canvases s self) = 0
   \<Longrightarrow> OnMouseWheel ext s self event = s\<lparr>uncaught := uncaught s @ [ZeroDivisionError]\<rparr>"
  by (subst OnMouseWheel_shape) simp

lemma OnMouseWheel_zoomed:
  "ControlDown event \<Longrightarrow> wheel_zoom ext (canvases s self) event \<noteq> zoom_level (canvases s self)
   \<Longrightarrow> zoom_level (canvases s self) \<noteq> 0
   \<Longrightarrow> OnMouseWheel ext s self event =
         SyncMirror ext
            (UpdateZoom ext
               (ClampPanPosition
                  (set_canvas s self
                     ((canvases s self)
                        \<lparr>pan_x := py_int (spec_anchored_pan (GetX event) (pan_x (canvases s self))
                                   (wheel_zoom ext (canvases s self) event) (zoom_level (canvases s self))),
                         pan_y := py_int (spec_anchored_pan (GetY event) (pan_y (canvases s self))
                                   (wheel_zoom ext (canvases s self) event) (zoom_level (canvases s self))),
                         zoom_level := wheel_zoom ext (canvases s self) event\<rparr>))
                  self)
               self)
            self"
  by (subst OnMouseWheel_shape) simp

lemma state_update_canvases [simp]:
  "canvases (s\<lparr>heap := h\<rparr>) = canvases s"
  "canvases (s\<lparr>calls := cs\<rparr>) = canvases s"
  "canvases (s\<lparr>uncaught := u\<rparr>) = canvases s"
  "canvases (s\<lparr>message_boxes := m\<rparr>) = canvases s"
  by simp_all

lemma ClampPanPosition_pan:
  "pan_x (canvases (ClampPanPosition s self) c) =
     (if c = self then
        (case source_pil_image (canvases s self) of
           None \<Rightarrow> pan_x (canvases s self)
         | Some a \<Rightarrow>
             if 1 < zoom_level (canvases s self) then
               max (min (pan_x (canvases s self))
                      (max_pan (width (heap s ! a)) (zoom_level (canvases s self))
                         (fst (GetSize (canvases s self)))))
                   (- max_pan (width (heap s ! a)) (zoom_level (canvases s self))
                         (fst (GetSize (canvases s self))))
             else pan_x (canvases s self))
      else pan_x (canvases s c))"
  "pan_y (canvases (ClampPanPosition s self) c) =
     (if c = self then
        (case source_pil_image (canvases s self) of
           None \<Rightarrow> pan_y (canvases s self)
         | Some a \<Rightarrow>
             if 1 < zoom_level (canvases s self) then
               max (min (pan_y (canvases s self))
                      (max_pan (height (heap s ! a)) (zoom_level (canvases s self))
                         (snd (GetSize (canvases s self)))))
                   (- max_pan (height (heap s ! a)) (zoom_level (canvases s self))
                         (snd (GetSize (canvases s self))))
             else pan_y (canvases s self))
      else pan_y (canvases s c))"
  by (simp_all add: ClampPanPosition_max_pan split: option.splits)

lemma SyncMirror_canvases:
  "canvases (SyncMirror ext s self) =
     (case mirror_canvas (canvases s self) of
        None \<Rightarrow> canvases s
      | Some m \<Rightarrow>
          (case source_pil_image (canvases s m) of
             None \<Rightarrow> canvases s
           | Some a \<Rightarrow>
               (canvases s)(m := (canvases s m)
                  \<lparr>zoom_level := zoom_level (canvases s self),
                   pan_x := pan_x (canvases s self),
                   pan_y := pan_y (canvases s self),
                   current_bitmap := render ext (heap s)
                      ((canvases s m)\<lparr>zoom_level := zoom_level (canvases s self),
                                       pan_x := pan_x (canvases s self),
                                       pan_y := pan_y (canvases s self)\<rparr>)\<rparr>)))"
  by (simp add: SyncMirror_shape split: option.splits)

lemma SyncMirror_calls:
  "calls (SyncMirror ext s self) =
     (case mirror_canvas (canvases s self) of
        None \<Rightarrow> calls s @ [SyncMirror_call self]
      | Some m \<Rightarrow>
          (case source_pil_image (canvases s m) of
             None \<Rightarrow> calls s @ [SyncMirror_call self]
           | Some a \<Rightarrow> calls s @ [SyncMirror_call self, UpdateZoom_call m]))"
  by (simp add: SyncMirror_shape split: option.splits)

lemma SyncMirror_frame [simp]:
  "heap (SyncMirror ext s self) = heap s"
  "original_image (SyncMirror ext s self) = original_image s"
  "processed_image (SyncMirror ext s self) = processed_image s"
  "clipboard (SyncMirror ext s self) = clipboard s"
  "message_boxes (SyncMirror ext s self) = message_boxes s"
  "uncaught (SyncMirror ext s self) = uncaught s"
  by (simp_all add: SyncMirror_shape split: option.splits)

lemma SetBitmap_heap:
  "heap (SetBitmap ext s self bitmap pil_image) =
     (case pil_image of None \<Rightarrow> heap s | Some p \<Rightarrow> heap s @ [heap s ! p])"
  by (simp add: SetBitmap_def Let_def split: option.splits)

lemma SetBitmap_frame [simp]:
  "original_image (SetBitmap ext s self bitmap pil_image) = original_image s"
  "processed_image (SetBitmap ext s self bitmap pil_image) = processed_image s"
  "clipboard (SetBitmap ext s self bitmap pil_image) = clipboard s"
  "message_boxes (SetBitmap ext s self bitmap pil_image) = message_boxes s"
  "uncaught (SetBitmap ext s self bitmap pil_image) = uncaught s"
  "calls (SetBitmap ext s self bitmap pil_image) = calls s @ [UpdateZoom_call self]"
  by (simp_all add: SetBitmap_def Let_def split: option.splits)

lemma SetBitmap_other [simp]:
  "c \<noteq> self \<Longrightarrow> canvases (SetBitmap ext s self bitmap pil_image) c = canvases s c"
  by (simp add: SetBitmap_def Let_def split: option.splits)

lemma SetBitmap_self [simp]:
  "zoom_level (canvases (SetBitmap ext s self bitmap pil_image) self) = 1"
  "pan_x (canvases (SetBitmap ext s self bitmap pil_image) self) = 0"
  "pan_y (canvases (SetBitmap ext s self bitmap pil_image) self) = 0"
  "original_bitmap (canvases (SetBitmap ext s self bitmap pil_image) self) = Some bitmap"
  "source_pil_image (canvases (SetBitmap ext s self bitmap pil_image) self) =
     (case pil_image of None \<Rightarrow> source_pil_image (canvases s self)
      | Some p \<Rightarrow> Some (length (heap s)))"
  "GetSize (canvases (SetBitmap ext s self bitmap pil_image) self) = GetSize (canvases s self)"
  "mirror_canvas (canvases (SetBitmap ext s self bitmap pil_image) self) = mirror_canvas (canvases s self)"
  "min_zoom (canvases (SetBitmap ext s self bitmap pil_image) self) = min_zoom (canvases s self)"
  "max_zoom (canvases (SetBitmap ext s self bitmap pil_image) self) = max_zoom (canvases s self)"
  "dragging (canvases (SetBitmap ext s self bitmap pil_image) self) = dragging (canvases s self)"
  "last_mouse_x (canvases (SetBitmap ext s self bitmap pil_image) self) = last_mouse_x (canvases s self)"
  "last_mouse_y (canvases (SetBitmap ext s self bitmap pil_image) self) = last_mouse_y (canvases s self)"
  by (simp_all add: SetBitmap_def Let_def split: option.splits)

lemma display_image_heap [simp]:
  "heap (display_image ext s canvas p) = heap s @ [heap s ! p]"
  by (simp add: display_image_def Let_def SetBitmap_heap)

lemma display_image_frame [simp]:
  "original_image (display_image ext s canvas p) = original_image s"
  "processed_image (display_image ext s canvas p) = processed_image s"
  "clipboard (display_image ext s canvas p) = clipboard s"
  "message_boxes (display_image ext s canvas p) = message_boxes s"
  "uncaught (display_image ext s canvas p) = uncaught s"
  "calls (display_image ext s canvas p) = calls s @ [UpdateZoom_call canvas]"
  by (simp_all add: display_image_def Let_def)

lemma display_image_other [simp]:
  "c \<noteq> canvas \<Longrightarrow> canvases (display_image ext s canvas p) c = canvases s c"
  by (simp add: display_image_def Let_def)

lemma display_image_self [simp]:
  "zoom_level (canvases (display_image ext s canvas p) canvas) = 1"
  "pan_x (canvases (display_image ext s canvas p) canvas) = 0"
  "pan_y (canvases (display_image ext s canvas p) canvas) = 0"
  "source_pil_image (canvases (display_image ext s canvas p) canvas) = Some (length (heap s))"
  "GetSize (canvases (display_image ext s canvas p) canvas) = GetSize (canvases s canvas)"
  "mirror_canvas (canvases (display_image ext s canvas p) canvas) = mirror_canvas (canvases s canvas)"
  "min_zoom (canvases (display_image ext s canvas p) canvas) = min_zoom (canvases s canvas)"
  "max_zoom (canvases (display_image ext s canvas p) canvas) = max_zoom (canvases s canvas)"
  "dragging (canvases (display_image ext s canvas p) canvas) = dragging (canvases s canvas)"
  "last_mouse_x (canvases (display_image ext s canvas p) canvas) = last_mouse_x (canvases s canvas)"
  "last_mouse_y (canvases (display_image ext s canvas p) canvas) = last_mouse_y (canvases s canvas)"
  by (simp_all add: display_image_def Let_def)

lemma install_original_heap [simp]:
  "heap (install_original ext s im) = heap s @ [im, im]"
  by (simp add: install_original_def Let_def)

lemma install_original_frame [simp]:
  "original_image (install_original ext s im) = Some (length (heap s))"
  "processed_image (install_original ext s im) = processed_image s"
  "clipboard (install_original ext s im) = clipboard s"
  "message_boxes (install_original ext s im) = message_boxes s"
  "uncaught (install_original ext s im) = uncaught s"
  "calls (install_original ext s im) = calls s @ [UpdateZoom_call left_canvas]"
  by (simp_all add: install_original_def Let_def)

lemma install_original_right [simp]:
  "canvases (install_original ext s im) right_canvas = canvases s right_canvas"
  by (simp add: install_original_def Let_def)

lemma install_original_left [simp]:
  "zoom_level (canvases (install_original ext s im) left_canvas) = 1"
  "pan_x (canvases (install_original ext s im) left_canvas) = 0"
  "pan_y (canvases (install_original ext s im) left_canvas) = 0"
  "source_pil_image (canvases (install_original ext s im) left_canvas) = Some (Suc (length (heap s)))"
  "GetSize (canvases (install_original ext s im) left_canvas) = GetSize (canvases s left_canvas)"
  "mirror_canvas (canvases (install_original ext s im) left_canvas) = mirror_canvas (canvases s left_canvas)"
  "min_zoom (canvases (install_original ext s im) left_canvas) = min_zoom (canvases s left_canvas)"
  "max_zoom (canvases (install_original ext s im) left_canvas) = max_zoom (canvases s left_canvas)"
  "dragging (canvases (install_original ext s im) left_canvas) = dragging (canvases s left_canvas)"
  by (simp_all add: install_original_def Let_def)

lemma init_state_fields [simp]:
  "heap init_state = []"
  "original_image init_state = None"
  "processed_image init_state = None"
  "zoom_level (canvases init_state c) = 1"
  "min_zoom (canvases init_state c) = 0.1"
  "max_zoom (canvases init_state c) = 5"
  "pan_x (canvases init_state c) = 0"
  "pan_y (canvases init_state c) = 0"
  "source_pil_image (canvases init_state c) = None"
  "GetSize (canvases init_state c) = (400, 400)"
  "dragging (canvases init_state c) = False"
  "mirror_canvas (canvases init_state left_canvas) = Some right_canvas"
  "mirror_canvas (canvases init_state right_canvas) = Some left_canvas"
  by (simp_all add: init_state_def SetMirrorCanvas_def init_canvas_def)


lemma processing_failed_simps [simp]:
  "heap (processing_failed s e) = heap s"
  "canvases (processing_failed s e) = canvases s"
  "original_image (processing_failed s e) = original_image s"
  "processed_image (processing_failed s e) = processed_image s"
  "message_boxes (processing_failed s e) = message_boxes s @ [''Error processing image: '' @ str e]"
  "calls (processing_failed s e) = calls s"
  by (simp_all add: processing_failed_def)

lemma remove_background_cases:
  "remove_background ext h a force = Inr (h', p) \<Longrightarrow>
     (h' = h \<and> p = a) \<or> (\<exists>r. rembg_remove ext (h ! a) = Inr r \<and> h' = h @ [r] \<and> p = length h)"
  by (auto simp add: remove_background_def Let_def split: if_splits sum.splits)

lemma save_final_image_simps:
  "save_final_image ext s a name = Inr s' \<Longrightarrow>
     heap s' = heap s \<and> canvases s' = canvases s \<and> original_image s' = original_image s \<and>
     processed_image s' = processed_image s \<and> message_boxes s' = message_boxes s \<and>
     calls s' = calls s"
  by (auto simp add: save_final_image_def Let_def split: option.splits)

text \<open>The ways \<^verbatim>\<open>on_remove_background\<close> can end, with the store each leaves.\<close>

lemma on_remove_background_outcomes:
  assumes "original_image s = Some original"
  shows "(heap (on_remove_background ext s ts) = heap s \<or>
          heap (on_remove_background ext s ts)
            = (heap s)[original := Image_thumbnail ext (heap s ! original) (1280, 1280)]) \<and>
         canvases (on_remove_background ext s ts) = canvases s \<and>
         original_image (on_remove_background ext s ts) = original_image s \<and>
         processed_image (on_remove_background ext s ts) = processed_image s
         \<or>
         (\<exists>h2 p. remove_background ext
                    ((heap s)[original := Image_thumbnail ext (heap s ! original) (1280, 1280)])
                    original False = Inr (h2, p) \<and>
            heap (on_remove_background ext s ts) = h2 @ [h2 ! p] \<and>
            original_image (on_remove_background ext s ts) = original_image s \<and>
            processed_image (on_remove_background ext s ts) = Some p \<and>
            canvases (on_remove_background ext s ts) left_canvas = canvases s left_canvas \<and>
            source_pil_image (canvases (on_remove_background ext s ts) right_canvas)
              = Some (length h2) \<and>
            zoom_level (canvases (on_remove_background ext s ts) right_canvas) = 1 \<and>
            pan_x (canvases (on_remove_background ext s ts) right_canvas) = 0 \<and>
            pan_y (canvases (on_remove_background ext s ts) right_canvas) = 0 \<and>
            GetSize (canvases (on_remove_background ext s ts) right_canvas)
              = GetSize (canvases s right_canvas) \<and>
            mirror_canvas (canvases (on_remove_background ext s ts) right_canvas)
              = mirror_canvas (canvases s right_canvas))"
  using assms
  by (auto simp add: on_remove_background_def resize_image_with_aspect_ratio_def Let_def
        dest!: save_final_image_simps split: option.splits sum.splits prod.splits)

section \<open>The zoom range\<close>

lemma SyncMirror_zoom_fields:
  "min_zoom (canvases (SyncMirror ext s self) c) = min_zoom (canvases s c)"
  "max_zoom (canvases (SyncMirror ext s self) c) = max_zoom (canvases s c)"
  "zoom_level (canvases (SyncMirror ext s self) c) = zoom_level (canvases s c) \<or>
   zoom_level (canvases (SyncMirror ext s self) c) = zoom_level (canvases s self)"
  by (simp_all add: SyncMirror_shape split: option.splits)

lemma OnMouseWheel_zoom_inv:
  assumes "zoom_inv s"
  shows "zoom_inv (OnMouseWheel ext s self event)"
proof -
  let ?c = "canvases s self"
  let ?N = "wheel_zoom ext ?c event"
  have m: "min_zoom ?c = 0.1" "max_zoom ?c = 5.0"
    using assms unfolding zoom_inv_def by blast+
  have r: "0.1 \<le> ?N \<and> ?N \<le> 5.0"
    using wheel_zoom_range[of ?c ext event] unfolding m by simp
  show ?thesis
  proof (cases "ControlDown event \<and> ?N \<noteq> zoom_level ?c")
    case False
    have "OnMouseWheel ext s self event = s"
      using False by (intro OnMouseWheel_noop) blast
    then show ?thesis using assms by simp
  next
    case True
    show ?thesis
    proof (cases "zoom_level ?c = 0")
      case z: True
      have "OnMouseWheel ext s self event = s\<lparr>uncaught := uncaught s @ [ZeroDivisionError]\<rparr>"
        using True z by (intro OnMouseWheel_zero) blast+
      then show ?thesis using assms by (simp add: zoom_inv_def)
    next
      case z: False
      let ?s1 = "UpdateZoom ext
               (ClampPanPosition
                  (set_canvas s self
                     (?c\<lparr>pan_x := py_int (spec_anchored_pan (GetX event) (pan_x ?c) ?N (zoom_level ?c)),
                         pan_y := py_int (spec_anchored_pan (GetY event) (pan_y ?c) ?N (zoom_level ?c)),
                         zoom_level := ?N\<rparr>))
                  self)
               self"
      have eq: "OnMouseWheel ext s self event = SyncMirror ext ?s1 self"
        using True z by (intro OnMouseWheel_zoomed) blast+
      have s1: "zoom_inv ?s1"
        using assms r by (simp add: zoom_inv_def)
      show ?thesis
        unfolding eq zoom_inv_def
        using s1 SyncMirror_zoom_fields[of ext ?s1 self]
        by (metis zoom_inv_def)
    qed
  qed
qed

lemma wheel_events_zoom_inv:
  "zoom_inv s \<Longrightarrow> zoom_inv (wheel_events ext s evs)"
  by (induction evs arbitrary: s) (auto simp: OnMouseWheel_zoom_inv)

text \<open>
  C2. From a state in which every canvas has the constructor's zoom range and a zoom
  level between 0.1 and 5.0, after each event of any sequence of wheel events (on either
  canvas, with or without Ctrl, in either direction) the zoom level of every canvas is
  between 0.1 and 5.0.
\<close>

theorem wheel_zoom_stays_in_range:
  assumes "\<forall>c. min_zoom (canvases s c) = 0.1 \<and> max_zoom (canvases s c) = 5.0 \<and>
               0.1 \<le> zoom_level (canvases s c) \<and> zoom_level (canvases s c) \<le> 5.0"
  shows "\<forall>n c. 0.1 \<le> zoom_level (canvases (wheel_events ext s (take n evs)) c) \<and>
                zoom_level (canvases (wheel_events ext s (take n evs)) c) \<le> 5.0"
proof -
  have "zoom_inv s" using assms by (simp add: zoom_inv_def)
  then have "zoom_inv (wheel_events ext s (take n evs))" for n
    by (rule wheel_events_zoom_inv)
  then show ?thesis unfolding zoom_inv_def by blast
qed

theorem wheel_zoom_stays_in_range_witness:
  "(min_zoom (canvases init_state left_canvas) = 0.1 \<and>
    max_zoom (canvases init_state left_canvas) = 5.0 \<and>
    zoom_level (canvases init_state left_canvas) = 1.0 \<and>
    min_zoom (canvases init_state right_canvas) = 0.1 \<and>
    max_zoom (canvases init_state right_canvas) = 5.0 \<and>
    zoom_level (canvases init_state right_canvas) = 1.0) \<and>
   zoom_level (canvases (wheel_events example_externals init_state
      [(left_canvas, ctrl_wheel 120 0 0), (left_canvas, ctrl_wheel 120 0 0),
       (right_canvas, ctrl_wheel (-120) 0 0)]) left_canvas) = 1.21 \<and>
   0.1 \<le> zoom_level (canvases (wheel_events example_externals init_state
      (take 3 [(left_canvas, ctrl_wheel 120 0 0), (left_canvas, ctrl_wheel 120 0 0),
       (right_canvas, ctrl_wheel (-120) 0 0)])) left_canvas) \<and>
   zoom_level (canvases (wheel_events example_externals init_state
      (take 3 [(left_canvas, ctrl_wheel 120 0 0), (left_canvas, ctrl_wheel 120 0 0),
       (right_canvas, ctrl_wheel (-120) 0 0)])) left_canvas) \<le> 5.0"
proof -
  have init: "min_zoom (canvases init_state c) = 0.1 \<and> max_zoom (canvases init_state c) = 5.0 \<and>
      zoom_level (canvases init_state c) = 1.0" for c
    by (cases c) (simp_all add: init_state_def init_canvas_def SetMirrorCanvas_def set_canvas_def)
  have h: "\<forall>c. min_zoom (canvases init_state c) = 0.1 \<and> max_zoom (canvases init_state c) = 5.0 \<and>
      0.1 \<le> zoom_level (canvases init_state c) \<and> zoom_level (canvases init_state c) \<le> 5.0"
    using init by simp
  have v: "zoom_level (canvases (wheel_events example_externals init_state
      [(left_canvas, ctrl_wheel 120 0 0), (left_canvas, ctrl_wheel 120 0 0),
       (right_canvas, ctrl_wheel (-120) 0 0)]) left_canvas) = 1.21"
    by code_simp
  show ?thesis
    using init v wheel_zoom_stays_in_range [OF h, of example_externals
      "[(left_canvas, ctrl_wheel 120 0 0), (left_canvas, ctrl_wheel 120 0 0),
       (right_canvas, ctrl_wheel (-120) 0 0)]"]
    by blast
qed

section \<open>Zooming with the wheel\<close>

lemma SyncMirror_origin_fields [simp]:
  "zoom_level (canvases (SyncMirror ext s self) self) = zoom_level (canvases s self)"
  "pan_x (canvases (SyncMirror ext s self) self) = pan_x (canvases s self)"
  "pan_y (canvases (SyncMirror ext s self) self) = pan_y (canvases s self)"
  by (simp_all add: SyncMirror_canvases split: option.splits)

lemma SyncMirror_kept_fields [simp]:
  "GetSize (canvases (SyncMirror ext s self) c) = GetSize (canvases s c)"
  "source_pil_image (canvases (SyncMirror ext s self) c) = source_pil_image (canvases s c)"
  "mirror_canvas (canvases (SyncMirror ext s self) c) = mirror_canvas (canvases s c)"
  "min_zoom (canvases (SyncMirror ext s self) c) = min_zoom (canvases s c)"
  "max_zoom (canvases (SyncMirror ext s self) c) = max_zoom (canvases s c)"
  "dragging (canvases (SyncMirror ext s self) c) = dragging (canvases s c)"
  "last_mouse_x (canvases (SyncMirror ext s self) c) = last_mouse_x (canvases s c)"
  "last_mouse_y (canvases (SyncMirror ext s self) c) = last_mouse_y (canvases s c)"
  "original_bitmap (canvases (SyncMirror ext s self) c) = original_bitmap (canvases s c)"
  by (simp_all add: SyncMirror_canvases split: option.splits)

lemma OnMouseWheel_zoomed_fields:
  assumes "ControlDown event"
    and "wheel_zoom ext (canvases s self) event \<noteq> zoom_level (canvases s self)"
    and "zoom_level (canvases s self) \<noteq> 0"
  shows "zoom_level (canvases (OnMouseWheel ext s self event) self) =
           wheel_zoom ext (canvases s self) event"
    and "pan_x (canvases (OnMouseWheel ext s self event) self) =
           (let p = py_int (spec_anchored_pan (GetX event) (pan_x (canvases s self))
                      (wheel_zoom ext (canvases s self) event) (zoom_level (canvases s self)));
                m = (case source_pil_image (canvases s self) of
                       None \<Rightarrow> None
                     | Some a \<Rightarrow>
                         if 1.0 < wheel_zoom ext (canvases s self) event
                         then Some (max_pan (width (heap s ! a))
                                      (wheel_zoom ext (canvases s self) event)
                                      (fst (GetSize (canvases s self))))
                         else None)
            in case m of None \<Rightarrow> p | Some b \<Rightarrow> max (min p b) (- b))"
    and "pan_y (canvases (OnMouseWheel ext s self event) self) =
           (let p = py_int (spec_anchored_pan (GetY event) (pan_y (canvases s self))
                      (wheel_zoom ext (canvases s self) event) (zoom_level (canvases s self)));
                m = (case source_pil_image (canvases s self) of
                       None \<Rightarrow> None
                     | Some a \<Rightarrow>
                         if 1.0 < wheel_zoom ext (canvases s self) event
                         then Some (max_pan (height (heap s ! a))
                                      (wheel_zoom ext (canvases s self) event)
                                      (snd (GetSize (canvases s self))))
                         else None)
            in case m of None \<Rightarrow> p | Some b \<Rightarrow> max (min p b) (- b))"
  unfolding OnMouseWheel_zoomed[OF assms] Let_def
  by (simp_all add: ClampPanPosition_pan split: option.splits)

lemma OnMouseWheel_kept [simp]:
  "heap (OnMouseWheel ext s self event) = heap s"
  "original_image (OnMouseWheel ext s self event) = original_image s"
  "processed_image (OnMouseWheel ext s self event) = processed_image s"
  "clipboard (OnMouseWheel ext s self event) = clipboard s"
  "message_boxes (OnMouseWheel ext s self event) = message_boxes s"
  "GetSize (canvases (OnMouseWheel ext s self event) c) = GetSize (canvases s c)"
  "source_pil_image (canvases (OnMouseWheel ext s self event) c) = source_pil_image (canvases s c)"
  "mirror_canvas (canvases (OnMouseWheel ext s self event) c) = mirror_canvas (canvases s c)"
  "min_zoom (canvases (OnMouseWheel ext s self event) c) = min_zoom (canvases s c)"
  "max_zoom (canvases (OnMouseWheel ext s self event) c) = max_zoom (canvases s c)"
  "dragging (canvases (OnMouseWheel ext s self event) c) = dragging (canvases s c)"
  by (simp_all add: OnMouseWheel_shape)


lemma example_image_size [simp]:
  "width (frombytes_RGB example_bitmap) = 4"
  "height (frombytes_RGB example_bitmap) = 3"
  "mode (frombytes_RGB example_bitmap) = ''RGB''"
  by (simp_all add: frombytes_RGB_def example_bitmap_def)

lemma ctrl_wheel_fields [simp]:
  "ControlDown (ctrl_wheel r x y)" "GetWheelRotation (ctrl_wheel r x y) = r"
  "GetX (ctrl_wheel r x y) = x" "GetY (ctrl_wheel r x y) = y"
  "LeftIsDown (ctrl_wheel r x y) = False"
  by (simp_all add: ctrl_wheel_def)

lemma example_platform [simp]: "wx_Platform example_externals = ''__WXMSW__''"
  by (simp add: example_externals_def)



section \<open>The pan bounds\<close>











lemma OnMouseMove_shape:
  "OnMouseMove ext s self event =
     (if dragging (canvases s self) \<and> LeftIsDown event then
        SyncMirror ext
          (UpdateZoom ext
             (ClampPanPosition
                (set_canvas s self
                   ((canvases s self)
                      \<lparr>pan_x := pan_x (canvases s self) + (GetX event - last_mouse_x (canvases s self)),
                       pan_y := pan_y (canvases s self) + (GetY event - last_mouse_y (canvases s self)),
                       last_mouse_x := GetX event, last_mouse_y := GetY event\<rparr>))
                self)
             self)
          self
      else s)"
  unfolding OnMouseMove_def Let_def by (rule refl)





lemma OnMouseMove_kept [simp]:
  "heap (OnMouseMove ext s self event) = heap s"
  "original_image (OnMouseMove ext s self event) = original_image s"
  "processed_image (OnMouseMove ext s self event) = processed_image s"
  "clipboard (OnMouseMove ext s self event) = clipboard s"
  "message_boxes (OnMouseMove ext s self event) = message_boxes s"
  "uncaught (OnMouseMove ext s self event) = uncaught s"
  "GetSize (canvases (OnMouseMove ext s self event) c) = GetSize (canvases s c)"
  "source_pil_image (canvases (OnMouseMove ext s self event) c) = source_pil_image (canvases s c)"
  "mirror_canvas (canvases (OnMouseMove ext s self event) c) = mirror_canvas (canvases s c)"
  "min_zoom (canvases (OnMouseMove ext s self event) c) = min_zoom (canvases s c)"
  "max_zoom (canvases (OnMouseMove ext s self event) c) = max_zoom (canvases s c)"
  "dragging (canvases (OnMouseMove ext s self event) c) = dragging (canvases s c)"
  "zoom_level (canvases (OnMouseMove ext s self event) self) = zoom_level (canvases s self)"
  by (simp_all add: OnMouseMove_shape)



lemma mouse_at_fields [simp]:
  "ControlDown (mouse_at x y b) = False" "GetX (mouse_at x y b) = x" "GetY (mouse_at x y b) = y"
  "LeftIsDown (mouse_at x y b) = b"
  by (simp_all add: mouse_at_def)

lemma example_loaded_fields:
  "heap example_loaded = [frombytes_RGB example_bitmap, frombytes_RGB example_bitmap]"
  "original_image example_loaded = Some 0"
  "processed_image example_loaded = None"
  "zoom_level (canvases example_loaded c) = 1"
  "min_zoom (canvases example_loaded c) = 0.1"
  "max_zoom (canvases example_loaded c) = 5"
  "pan_x (canvases example_loaded c) = 0"
  "pan_y (canvases example_loaded c) = 0"
  "source_pil_image (canvases example_loaded left_canvas) = Some 1"
  "source_pil_image (canvases example_loaded right_canvas) = None"
  "GetSize (canvases example_loaded c) = (2, 2)"
  "dragging (canvases example_loaded c) = False"
  "mirror_canvas (canvases example_loaded left_canvas) = Some right_canvas"
  "mirror_canvas (canvases example_loaded right_canvas) = Some left_canvas"
  by (cases c; simp add: example_loaded_def OnData_def)+

lemma OnMouseDown_fields [simp]:
  "heap (OnMouseDown s self event) = heap s"
  "source_pil_image (canvases (OnMouseDown s self event) c) = source_pil_image (canvases s c)"
  "zoom_level (canvases (OnMouseDown s self event) c) = zoom_level (canvases s c)"
  "pan_x (canvases (OnMouseDown s self event) c) = pan_x (canvases s c)"
  "pan_y (canvases (OnMouseDown s self event) c) = pan_y (canvases s c)"
  "GetSize (canvases (OnMouseDown s self event) c) = GetSize (canvases s c)"
  "mirror_canvas (canvases (OnMouseDown s self event) c) = mirror_canvas (canvases s c)"
  "min_zoom (canvases (OnMouseDown s self event) c) = min_zoom (canvases s c)"
  "max_zoom (canvases (OnMouseDown s self event) c) = max_zoom (canvases s c)"
  by (simp_all add: OnMouseDown_def Let_def)





section \<open>Mirroring\<close>

lemma SyncMirror_partner:
  assumes "mirror_canvas (canvases s self) = Some m" and "m \<noteq> self"
  shows "source_pil_image (canvases s m) \<noteq> None \<Longrightarrow>
           zoom_level (canvases (SyncMirror ext s self) m) = zoom_level (canvases s self) \<and>
           pan_x (canvases (SyncMirror ext s self) m) = pan_x (canvases s self) \<and>
           pan_y (canvases (SyncMirror ext s self) m) = pan_y (canvases s self)"
    and "source_pil_image (canvases s m) = None \<Longrightarrow>
           canvases (SyncMirror ext s self) m = canvases s m"
  using assms by (auto simp add: SyncMirror_canvases split: option.splits)

lemma synced_after_clamp_render:
  assumes "mirror_canvas (canvases s1 self) = Some m" and "m \<noteq> self"
  shows "(source_pil_image (canvases s1 m) \<noteq> None \<longrightarrow>
           zoom_level (canvases (SyncMirror ext (UpdateZoom ext (ClampPanPosition s1 self) self) self) m)
             = zoom_level (canvases (SyncMirror ext (UpdateZoom ext (ClampPanPosition s1 self) self) self) self) \<and>
           pan_x (canvases (SyncMirror ext (UpdateZoom ext (ClampPanPosition s1 self) self) self) m)
             = pan_x (canvases (SyncMirror ext (UpdateZoom ext (ClampPanPosition s1 self) self) self) self) \<and>
           pan_y (canvases (SyncMirror ext (UpdateZoom ext (ClampPanPosition s1 self) self) self) m)
             = pan_y (canvases (SyncMirror ext (UpdateZoom ext (ClampPanPosition s1 self) self) self) self)) \<and>
         (source_pil_image (canvases s1 m) = None \<longrightarrow>
           canvases (SyncMirror ext (UpdateZoom ext (ClampPanPosition s1 self) self) self) m
             = canvases s1 m)"
proof -
  let ?s3 = "UpdateZoom ext (ClampPanPosition s1 self) self"
  have mir: "mirror_canvas (canvases ?s3 self) = Some m" using assms(1) by simp
  have src: "source_pil_image (canvases ?s3 m) = source_pil_image (canvases s1 m)"
    using assms(2) by simp
  have same: "canvases ?s3 m = canvases s1 m" using assms(2) by simp
  show ?thesis
    using SyncMirror_partner[OF mir assms(2), of ext] src same by simp
qed

lemma wheel_mirror:
  assumes mir: "mirror_canvas (canvases s self) = Some m" and neq: "m \<noteq> self"
    and changed: "(zoom_level (canvases (OnMouseWheel ext s self event) self),
                   pan_x (canvases (OnMouseWheel ext s self event) self),
                   pan_y (canvases (OnMouseWheel ext s self event) self))
                  \<noteq> (zoom_level (canvases s self), pan_x (canvases s self), pan_y (canvases s self))"
  shows "(source_pil_image (canvases s m) \<noteq> None \<longrightarrow>
           zoom_level (canvases (OnMouseWheel ext s self event) m)
             = zoom_level (canvases (OnMouseWheel ext s self event) self) \<and>
           pan_x (canvases (OnMouseWheel ext s self event) m)
             = pan_x (canvases (OnMouseWheel ext s self event) self) \<and>
           pan_y (canvases (OnMouseWheel ext s self event) m)
             = pan_y (canvases (OnMouseWheel ext s self event) self)) \<and>
         (source_pil_image (canvases s m) = None \<longrightarrow>
           canvases (OnMouseWheel ext s self event) m = canvases s m)"
proof -
  let ?c = "canvases s self"
  let ?N = "wheel_zoom ext ?c event"
  consider (noop) "\<not> ControlDown event \<or> ?N = zoom_level ?c"
    | (zero) "ControlDown event" "?N \<noteq> zoom_level ?c" "zoom_level ?c = 0"
    | (zoomed) "ControlDown event" "?N \<noteq> zoom_level ?c" "zoom_level ?c \<noteq> 0"
    by blast
  then show ?thesis
  proof cases
    case noop
    then have "OnMouseWheel ext s self event = s" by (rule OnMouseWheel_noop)
    then show ?thesis using changed by simp
  next
    case zero
    then have "OnMouseWheel ext s self event = s\<lparr>uncaught := uncaught s @ [ZeroDivisionError]\<rparr>"
      by (rule OnMouseWheel_zero)
    then show ?thesis using changed by simp
  next
    case zoomed
    let ?s1 = "set_canvas s self
                 (?c\<lparr>pan_x := py_int (spec_anchored_pan (GetX event) (pan_x ?c) ?N (zoom_level ?c)),
                     pan_y := py_int (spec_anchored_pan (GetY event) (pan_y ?c) ?N (zoom_level ?c)),
                     zoom_level := ?N\<rparr>)"
    have eq: "OnMouseWheel ext s self event =
                SyncMirror ext (UpdateZoom ext (ClampPanPosition ?s1 self) self) self"
      using zoomed by (rule OnMouseWheel_zoomed)
    have m1: "mirror_canvas (canvases ?s1 self) = Some m" using mir by simp
    have same: "canvases ?s1 m = canvases s m" using neq by simp
    show ?thesis
      unfolding eq using synced_after_clamp_render[OF m1 neq, of ext] same by simp
  qed
qed

lemma move_mirror:
  assumes mir: "mirror_canvas (canvases s self) = Some m" and neq: "m \<noteq> self"
    and changed: "(zoom_level (canvases (OnMouseMove ext s self event) self),
                   pan_x (canvases (OnMouseMove ext s self event) self),
                   pan_y (canvases (OnMouseMove ext s self event) self))
                  \<noteq> (zoom_level (canvases s self), pan_x (canvases s self), pan_y (canvases s self))"
  shows "(source_pil_image (canvases s m) \<noteq> None \<longrightarrow>
           zoom_level (canvases (OnMouseMove ext s self event) m)
             = zoom_level (canvases (OnMouseMove ext s self event) self) \<and>
           pan_x (canvases (OnMouseMove ext s self event) m)
             = pan_x (canvases (OnMouseMove ext s self event) self) \<and>
           pan_y (canvases (OnMouseMove ext s self event) m)
             = pan_y (canvases (OnMouseMove ext s self event) self)) \<and>
         (source_pil_image (canvases s m) = None \<longrightarrow>
           canvases (OnMouseMove ext s self event) m = canvases s m)"
proof (cases "dragging (canvases s self) \<and> LeftIsDown event")
  case False
  then have "OnMouseMove ext s self event = s" by (auto simp: OnMouseMove_shape)
  then show ?thesis using changed by simp
next
  case True
  let ?c = "canvases s self"
  let ?s1 = "set_canvas s self
               (?c\<lparr>pan_x := pan_x ?c + (GetX event - last_mouse_x ?c),
                   pan_y := pan_y ?c + (GetY event - last_mouse_y ?c),
                   last_mouse_x := GetX event, last_mouse_y := GetY event\<rparr>)"
  have eq: "OnMouseMove ext s self event =
              SyncMirror ext (UpdateZoom ext (ClampPanPosition ?s1 self) self) self"
    using True by (simp add: OnMouseMove_shape)
  have m1: "mirror_canvas (canvases ?s1 self) = Some m" using mir by simp
  have same: "canvases ?s1 m = canvases s m" using neq by simp
  show ?thesis
    unfolding eq using synced_after_clamp_render[OF m1 neq, of ext] same by simp
qed

text \<open>
  C4. Let a canvas have a mirror partner other than itself, and let a wheel event or a
  mouse move on it change its zoom or pan. If the partner holds a source image, then
  afterwards the partner's zoom and pan equal the origin's; if the partner holds no
  source image, every field of the partner is as before.
\<close>

theorem mirror_follows_origin:
  assumes "mirror_canvas (canvases s self) = Some m" and "m \<noteq> self"
    and "s' = OnMouseWheel ext s self event \<or> s' = OnMouseMove ext s self event"
    and "(zoom_level (canvases s' self), pan_x (canvases s' self), pan_y (canvases s' self))
           \<noteq> (zoom_level (canvases s self), pan_x (canvases s self), pan_y (canvases s self))"
  shows "(source_pil_image (canvases s m) \<noteq> None \<longrightarrow>
           zoom_level (canvases s' m) = zoom_level (canvases s' self) \<and>
           pan_x (canvases s' m) = pan_x (canvases s' self) \<and>
           pan_y (canvases s' m) = pan_y (canvases s' self)) \<and>
         (source_pil_image (canvases s m) = None \<longrightarrow> canvases s' m = canvases s m)"
  using assms(3)
proof
  assume e: "s' = OnMouseWheel ext s self event"
  show ?thesis using wheel_mirror[OF assms(1,2), of ext event] assms(4) unfolding e by blast
next
  assume e: "s' = OnMouseMove ext s self event"
  show ?thesis using move_mirror[OF assms(1,2), of ext event] assms(4) unfolding e by blast
qed

lemma example_externals_simps [simp]:
  "rembg_new_session example_externals = None"
  "Image_save example_externals path im = None"
  "Image_thumbnail example_externals = thumbnail_example"
  "Image_convert example_externals = convert_example"
  by (simp_all add: example_externals_def)

lemma example_thumbnail_same [simp]:
  "thumbnail_example (frombytes_RGB example_bitmap) (1280, 1280) = frombytes_RGB example_bitmap"
  by (simp add: thumbnail_example_def)

lemma example_processed_fields:
  "length (heap example_processed) = 4"
  "heap example_processed ! 1 = frombytes_RGB example_bitmap"
  "original_image example_processed = Some 0"
  "processed_image example_processed = Some 2"
  "source_pil_image (canvases example_processed left_canvas) = Some 1"
  "source_pil_image (canvases example_processed right_canvas) = Some 3"
  "zoom_level (canvases example_processed c) = 1"
  "pan_x (canvases example_processed c) = 0"
  "pan_y (canvases example_processed c) = 0"
  "GetSize (canvases example_processed c) = (2, 2)"
  "mirror_canvas (canvases example_processed left_canvas) = Some right_canvas"
  "mirror_canvas (canvases example_processed right_canvas) = Some left_canvas"
  "min_zoom (canvases example_processed c) = 0.1"
  "max_zoom (canvases example_processed c) = 5"
  by (cases c;
      simp add: example_processed_def on_remove_background_def resize_image_with_aspect_ratio_def
        remove_background_def save_final_image_def Let_def example_loaded_fields
        example_externals_def[THEN arg_cong, of rembg_remove])+

theorem mirror_follows_origin_witness:
  "mirror_canvas (canvases example_processed left_canvas) = Some right_canvas \<and>
   source_pil_image (canvases example_processed right_canvas) = Some 3 \<and>
   zoom_level (canvases example_processed right_canvas) = 1 \<and>
   zoom_level (canvases (OnMouseWheel example_externals example_processed left_canvas
                           (ctrl_wheel 120 1 1)) left_canvas) = 1.1 \<and>
   zoom_level (canvases (OnMouseWheel example_externals example_processed left_canvas
                           (ctrl_wheel 120 1 1)) right_canvas) = 1.1 \<and>
   pan_x (canvases (OnMouseWheel example_externals example_processed left_canvas
                           (ctrl_wheel 120 1 1)) right_canvas)
     = pan_x (canvases (OnMouseWheel example_externals example_processed left_canvas
                           (ctrl_wheel 120 1 1)) left_canvas) \<and>
   pan_y (canvases (OnMouseWheel example_externals example_processed left_canvas
                           (ctrl_wheel 120 1 1)) right_canvas)
     = pan_y (canvases (OnMouseWheel example_externals example_processed left_canvas
                           (ctrl_wheel 120 1 1)) left_canvas) \<and>
   mirror_canvas (canvases example_loaded left_canvas) = Some right_canvas \<and>
   source_pil_image (canvases example_loaded right_canvas) = None \<and>
   zoom_level (canvases (OnMouseWheel example_externals example_loaded left_canvas
                           (ctrl_wheel 120 1 1)) left_canvas) = 1.1 \<and>
   canvases (OnMouseWheel example_externals example_loaded left_canvas (ctrl_wheel 120 1 1))
      right_canvas = canvases example_loaded right_canvas"
proof -
  let ?e = "ctrl_wheel 120 1 1"
  have c: "ControlDown ?e" by simp
  have neq: "right_canvas \<noteq> left_canvas" by simp
  have m1: "mirror_canvas (canvases example_processed left_canvas) = Some right_canvas"
    by (simp add: example_processed_fields)
  have w1: "wheel_zoom example_externals (canvases example_processed left_canvas) ?e = 1.1"
    by (simp add: wheel_zoom_def example_processed_fields)
  have n1: "wheel_zoom example_externals (canvases example_processed left_canvas) ?e
              \<noteq> zoom_level (canvases example_processed left_canvas)"
    by (simp add: w1 example_processed_fields)
  have z1: "zoom_level (canvases example_processed left_canvas) \<noteq> 0"
    by (simp add: example_processed_fields)
  have f1: "zoom_level (canvases (OnMouseWheel example_externals example_processed left_canvas ?e)
              left_canvas) = 1.1"
    unfolding OnMouseWheel_zoomed_fields[OF c n1 z1] w1 by simp
  have ch1: "(zoom_level (canvases (OnMouseWheel example_externals example_processed left_canvas ?e) left_canvas),
              pan_x (canvases (OnMouseWheel example_externals example_processed left_canvas ?e) left_canvas),
              pan_y (canvases (OnMouseWheel example_externals example_processed left_canvas ?e) left_canvas))
             \<noteq> (zoom_level (canvases example_processed left_canvas),
                 pan_x (canvases example_processed left_canvas),
                 pan_y (canvases example_processed left_canvas))"
    by (simp add: f1 example_processed_fields)
  note t1 = mirror_follows_origin [OF m1 neq disjI1 [OF refl] ch1]
  have m2: "mirror_canvas (canvases example_loaded left_canvas) = Some right_canvas"
    by (simp add: example_loaded_fields)
  have w2: "wheel_zoom example_externals (canvases example_loaded left_canvas) ?e = 1.1"
    by (simp add: wheel_zoom_def example_loaded_fields)
  have n2: "wheel_zoom example_externals (canvases example_loaded left_canvas) ?e
              \<noteq> zoom_level (canvases example_loaded left_canvas)"
    by (simp add: w2 example_loaded_fields)
  have z2: "zoom_level (canvases example_loaded left_canvas) \<noteq> 0"
    by (simp add: example_loaded_fields)
  have f2: "zoom_level (canvases (OnMouseWheel example_externals example_loaded left_canvas ?e)
              left_canvas) = 1.1"
    unfolding OnMouseWheel_zoomed_fields[OF c n2 z2] w2 by simp
  have ch2: "(zoom_level (canvases (OnMouseWheel example_externals example_loaded left_canvas ?e) left_canvas),
              pan_x (canvases (OnMouseWheel example_externals example_loaded left_canvas ?e) left_canvas),
              pan_y (canvases (OnMouseWheel example_externals example_loaded left_canvas ?e) left_canvas))
             \<noteq> (zoom_level (canvases example_loaded left_canvas),
                 pan_x (canvases example_loaded left_canvas),
                 pan_y (canvases example_loaded left_canvas))"
    by (simp add: f2 example_loaded_fields)
  note t2 = mirror_follows_origin [OF m2 neq disjI1 [OF refl] ch2]
  show ?thesis
    using t1 t2 f1 f2 by (simp add: example_processed_fields example_loaded_fields)
qed

section \<open>One hop of propagation\<close>

lemma clamp_render_sync_calls:
  "calls (SyncMirror ext (UpdateZoom ext (ClampPanPosition s1 self) self) self) =
     calls s1 @ [UpdateZoom_call self, SyncMirror_call self] @
       (case mirror_canvas (canvases s1 self) of
          None \<Rightarrow> []
        | Some m \<Rightarrow> (case source_pil_image (canvases s1 m) of
                       None \<Rightarrow> [] | Some a \<Rightarrow> [UpdateZoom_call m]))"
  by (simp add: SyncMirror_calls split: option.splits)

lemma OnMouseWheel_calls:
  "calls (OnMouseWheel ext s self event) =
     calls s @
     (if ControlDown event \<and> wheel_zoom ext (canvases s self) event \<noteq> zoom_level (canvases s self)
         \<and> zoom_level (canvases s self) \<noteq> 0
      then [UpdateZoom_call self, SyncMirror_call self] @
           (case mirror_canvas (canvases s self) of
              None \<Rightarrow> []
            | Some m \<Rightarrow> (case source_pil_image (canvases s m) of
                           None \<Rightarrow> [] | Some a \<Rightarrow> [UpdateZoom_call m]))
      else [])"
proof -
  let ?c = "canvases s self"
  let ?N = "wheel_zoom ext ?c event"
  consider (noop) "\<not> ControlDown event \<or> ?N = zoom_level ?c"
    | (zero) "ControlDown event" "?N \<noteq> zoom_level ?c" "zoom_level ?c = 0"
    | (zoomed) "ControlDown event" "?N \<noteq> zoom_level ?c" "zoom_level ?c \<noteq> 0"
    by blast
  then show ?thesis
  proof cases
    case noop
    then have "OnMouseWheel ext s self event = s" by (rule OnMouseWheel_noop)
    then show ?thesis using noop by auto
  next
    case zero
    then have "OnMouseWheel ext s self event = s\<lparr>uncaught := uncaught s @ [ZeroDivisionError]\<rparr>"
      by (rule OnMouseWheel_zero)
    then show ?thesis using zero by simp
  next
    case zoomed
    show ?thesis
      unfolding OnMouseWheel_zoomed[OF zoomed] clamp_render_sync_calls
      using zoomed by (simp split: option.splits)
  qed
qed

lemma OnMouseMove_calls:
  "calls (OnMouseMove ext s self event) =
     calls s @
     (if dragging (canvases s self) \<and> LeftIsDown event
      then [UpdateZoom_call self, SyncMirror_call self] @
           (case mirror_canvas (canvases s self) of
              None \<Rightarrow> []
            | Some m \<Rightarrow> (case source_pil_image (canvases s m) of
                           None \<Rightarrow> [] | Some a \<Rightarrow> [UpdateZoom_call m]))
      else [])"
  by (simp add: OnMouseMove_shape clamp_render_sync_calls split: option.splits)

lemma OnMouseDown_calls [simp]: "calls (OnMouseDown s self event) = calls s"
  by (simp add: OnMouseDown_def Let_def)

lemma OnMouseUp_calls [simp]: "calls (OnMouseUp s self event) = calls s"
  by (simp add: OnMouseUp_def)

lemma new_calls_append [simp]: "calls s' = calls s @ xs \<Longrightarrow> new_calls s s' = xs"
  by (simp add: new_calls_def)

lemma partner_render_cases:
  "(case mirror_canvas (canvases s self) of
      None \<Rightarrow> []
    | Some m \<Rightarrow> (case source_pil_image (canvases s m) of
                   None \<Rightarrow> [] | Some a \<Rightarrow> [UpdateZoom_call m])) = [] \<or>
   (\<exists>m. mirror_canvas (canvases s self) = Some m \<and>
     (case mirror_canvas (canvases s self) of
        None \<Rightarrow> []
      | Some m \<Rightarrow> (case source_pil_image (canvases s m) of
                     None \<Rightarrow> [] | Some a \<Rightarrow> [UpdateZoom_call m])) = [UpdateZoom_call m])"
  by (simp split: option.splits)

lemma calls_shape_cases:
  assumes "calls s' = calls s @ (if b then [UpdateZoom_call self, SyncMirror_call self] @ t else [])"
    and "t = [] \<or> (\<exists>m. mirror_canvas (canvases s self) = Some m \<and> t = [UpdateZoom_call m])"
  shows "calls s' = calls s \<or>
         calls s' = calls s @ [UpdateZoom_call self, SyncMirror_call self] \<or>
         (\<exists>m. mirror_canvas (canvases s self) = Some m \<and>
              calls s' = calls s @ [UpdateZoom_call self, SyncMirror_call self, UpdateZoom_call m])"
proof (cases b)
  case False
  then show ?thesis using assms(1) by simp
next
  case True
  from assms(2) show ?thesis
  proof
    assume "t = []"
    then show ?thesis using assms(1) True by simp
  next
    assume "\<exists>m. mirror_canvas (canvases s self) = Some m \<and> t = [UpdateZoom_call m]"
    then obtain m where "mirror_canvas (canvases s self) = Some m" "t = [UpdateZoom_call m]"
      by blast
    then show ?thesis using assms(1) True by simp
  qed
qed

lemma mouse_event_calls:
  assumes "e = EVT_MOUSEWHEEL self ev \<or> e = EVT_LEFT_DOWN self ev \<or>
           e = EVT_LEFT_UP self ev \<or> e = EVT_MOTION self ev"
  shows "calls (dispatch ext s e) = calls s \<or>
         calls (dispatch ext s e) = calls s @ [UpdateZoom_call self, SyncMirror_call self] \<or>
         (\<exists>m. mirror_canvas (canvases s self) = Some m \<and>
              calls (dispatch ext s e)
                = calls s @ [UpdateZoom_call self, SyncMirror_call self, UpdateZoom_call m])"
proof -
  consider (wheel) "e = EVT_MOUSEWHEEL self ev" | (down) "e = EVT_LEFT_DOWN self ev"
    | (up) "e = EVT_LEFT_UP self ev" | (move) "e = EVT_MOTION self ev"
    using assms by blast
  then show ?thesis
  proof cases
    case wheel
    have "calls (OnMouseWheel ext s self ev) = calls s \<or>
         calls (OnMouseWheel ext s self ev) = calls s @ [UpdateZoom_call self, SyncMirror_call self] \<or>
         (\<exists>m. mirror_canvas (canvases s self) = Some m \<and>
              calls (OnMouseWheel ext s self ev)
                = calls s @ [UpdateZoom_call self, SyncMirror_call self, UpdateZoom_call m])"
      by (rule calls_shape_cases[OF OnMouseWheel_calls partner_render_cases])
    then show ?thesis unfolding wheel by simp
  next
    case down
    then show ?thesis by simp
  next
    case up
    then show ?thesis by simp
  next
    case move
    have "calls (OnMouseMove ext s self ev) = calls s \<or>
         calls (OnMouseMove ext s self ev) = calls s @ [UpdateZoom_call self, SyncMirror_call self] \<or>
         (\<exists>m. mirror_canvas (canvases s self) = Some m \<and>
              calls (OnMouseMove ext s self ev)
                = calls s @ [UpdateZoom_call self, SyncMirror_call self, UpdateZoom_call m])"
      by (rule calls_shape_cases[OF OnMouseMove_calls partner_render_cases])
    then show ?thesis unfolding move by simp
  qed
qed

text \<open>
  C5. Processing one mouse event on a canvas starts at most three of the recorded
  method invocations: the origin's \<^verbatim>\<open>UpdateZoom\<close>, the origin's \<^verbatim>\<open>SyncMirror\<close>, and
  the \<^verbatim>\<open>UpdateZoom\<close> of its mirror partner. \<^verbatim>\<open>SyncMirror\<close> is invoked at most once, and
  only on the canvas that received the event: the partner never propagates back, also
  when the two canvases mirror each other.
\<close>

theorem mirror_propagation_single_hop:
  assumes "e = EVT_MOUSEWHEEL self ev \<or> e = EVT_LEFT_DOWN self ev \<or>
           e = EVT_LEFT_UP self ev \<or> e = EVT_MOTION self ev"
  shows "calls (dispatch ext s e) = calls s @ new_calls s (dispatch ext s e) \<and>
         length (new_calls s (dispatch ext s e)) \<le> 3 \<and>
         length (filter (\<lambda>x. x = SyncMirror_call self) (new_calls s (dispatch ext s e))) \<le> 1 \<and>
         (\<forall>c. SyncMirror_call c \<in> set (new_calls s (dispatch ext s e)) \<longrightarrow> c = self) \<and>
         (\<forall>c. UpdateZoom_call c \<in> set (new_calls s (dispatch ext s e)) \<longrightarrow>
              c = self \<or> mirror_canvas (canvases s self) = Some c)"
proof -
  from mouse_event_calls[OF assms, of ext s]
  consider (none) "calls (dispatch ext s e) = calls s @ []"
    | (two) "calls (dispatch ext s e) = calls s @ [UpdateZoom_call self, SyncMirror_call self]"
    | (three) m where "mirror_canvas (canvases s self) = Some m"
        "calls (dispatch ext s e)
           = calls s @ [UpdateZoom_call self, SyncMirror_call self, UpdateZoom_call m]"
    by auto
  then show ?thesis
  proof cases
    case none
    then show ?thesis using new_calls_append[OF none] by simp
  next
    case two
    then show ?thesis using new_calls_append[OF two] by simp
  next
    case three
    then show ?thesis using new_calls_append[OF three(2)] by auto
  qed
qed

theorem mirror_propagation_single_hop_witness:
  "mirror_canvas (canvases example_processed left_canvas) = Some right_canvas \<and>
   mirror_canvas (canvases example_processed right_canvas) = Some left_canvas \<and>
   new_calls example_processed
     (dispatch example_externals example_processed (EVT_MOUSEWHEEL left_canvas (ctrl_wheel 120 1 1)))
     = [UpdateZoom_call left_canvas, SyncMirror_call left_canvas, UpdateZoom_call right_canvas] \<and>
   length (new_calls example_processed
     (dispatch example_externals example_processed (EVT_MOUSEWHEEL left_canvas (ctrl_wheel 120 1 1))))
     \<le> 3 \<and>
   SyncMirror_call right_canvas \<notin> set (new_calls example_processed
     (dispatch example_externals example_processed (EVT_MOUSEWHEEL left_canvas (ctrl_wheel 120 1 1))))"
proof -
  let ?e = "EVT_MOUSEWHEEL left_canvas (ctrl_wheel 120 1 1)"
  let ?s' = "dispatch example_externals example_processed ?e"
  have h: "?e = EVT_MOUSEWHEEL left_canvas (ctrl_wheel 120 1 1) \<or>
           ?e = EVT_LEFT_DOWN left_canvas (ctrl_wheel 120 1 1) \<or>
           ?e = EVT_LEFT_UP left_canvas (ctrl_wheel 120 1 1) \<or>
           ?e = EVT_MOTION left_canvas (ctrl_wheel 120 1 1)"
    by (rule disjI1) (rule refl)
  have w: "wheel_zoom example_externals (canvases example_processed left_canvas)
             (ctrl_wheel 120 1 1) = 1.1"
    by (simp add: wheel_zoom_def example_processed_fields)
  have cond: "ControlDown (ctrl_wheel 120 1 1) \<and>
      wheel_zoom example_externals (canvases example_processed left_canvas) (ctrl_wheel 120 1 1)
        \<noteq> zoom_level (canvases example_processed left_canvas) \<and>
      zoom_level (canvases example_processed left_canvas) \<noteq> 0"
    by (simp add: w example_processed_fields)
  have c: "calls ?s' =
             calls example_processed @
               [UpdateZoom_call left_canvas, SyncMirror_call left_canvas, UpdateZoom_call right_canvas]"
    unfolding dispatch.simps OnMouseWheel_calls if_P[OF cond]
    by (simp add: example_processed_fields)
  have n: "new_calls example_processed ?s' =
             [UpdateZoom_call left_canvas, SyncMirror_call left_canvas, UpdateZoom_call right_canvas]"
    by (rule new_calls_append[OF c])
  note t = mirror_propagation_single_hop [OF h, of example_externals example_processed]
  have l: "length (new_calls example_processed ?s') \<le> 3"
    using t by blast
  have m: "SyncMirror_call right_canvas \<notin> set (new_calls example_processed ?s')"
    using t by blast
  have mir: "mirror_canvas (canvases example_processed left_canvas) = Some right_canvas"
    "mirror_canvas (canvases example_processed right_canvas) = Some left_canvas"
    by (simp_all add: example_processed_fields)
  show ?thesis
    using mir n l m by blast
qed

section \<open>Installing an image and failed drops\<close>

text \<open>
  C6. Whatever the state of the canvas, \<^verbatim>\<open>SetBitmap\<close> with a PIL image stores a new
  copy of that image as the source and leaves the zoom at 1.0 and the pan at \<open>(0, 0)\<close>;
  no other cell of the store changes and no exception leaves the method. The same holds
  for \<^verbatim>\<open>display_image\<close>, through which every image reaches a canvas.
\<close>

theorem SetBitmap_installs_and_resets:
  "source_pil_image (canvases (SetBitmap ext s self bitmap (Some p)) self) = Some (length (heap s)) \<and>
   heap (SetBitmap ext s self bitmap (Some p)) = heap s @ [heap s ! p] \<and>
   heap (SetBitmap ext s self bitmap (Some p)) ! length (heap s) = heap s ! p \<and>
   zoom_level (canvases (SetBitmap ext s self bitmap (Some p)) self) = 1.0 \<and>
   pan_x (canvases (SetBitmap ext s self bitmap (Some p)) self) = 0 \<and>
   pan_y (canvases (SetBitmap ext s self bitmap (Some p)) self) = 0 \<and>
   uncaught (SetBitmap ext s self bitmap (Some p)) = uncaught s \<and>
   message_boxes (SetBitmap ext s self bitmap (Some p)) = message_boxes s \<and>
   source_pil_image (canvases (display_image ext s self p) self) = Some (length (heap s)) \<and>
   heap (display_image ext s self p) ! length (heap s) = heap s ! p \<and>
   zoom_level (canvases (display_image ext s self p) self) = 1.0 \<and>
   pan_x (canvases (display_image ext s self p) self) = 0 \<and>
   pan_y (canvases (display_image ext s self p) self) = 0 \<and>
   uncaught (display_image ext s self p) = uncaught s"
  by (simp add: SetBitmap_heap)




section \<open>Copying to the clipboard\<close>

lemma OnCopy_frame [simp]:
  "heap (OnCopy ext s self opens) = heap s"
  "canvases (OnCopy ext s self opens) = canvases s"
  "original_image (OnCopy ext s self opens) = original_image s"
  "processed_image (OnCopy ext s self opens) = processed_image s"
  by (simp_all add: OnCopy_def Let_def split: option.splits)

text \<open>
  C8, as the code has it. For a canvas that holds a source image, copying puts on the
  clipboard, when the clipboard can be opened, a bitmap of the source image converted to
  RGB: its size and bytes are those of the source itself when the source's mode is RGB,
  and those of its RGB conversion otherwise (an RGBA source loses its alpha channel).
  The result depends on the source image only, not on zoom, pan or the displayed
  bitmap, and the canvases and the store are unchanged. When the clipboard cannot be
  opened, nothing changes.
\<close>

theorem copy_exports_rgb_of_source:
  assumes "source_pil_image (canvases s self) = Some a"
  shows "(mode (heap s ! a) = ''RGB'' \<longrightarrow>
            clipboard (OnCopy ext s self True) =
              Some \<lparr>bm_width = width (heap s ! a), bm_height = height (heap s ! a),
                    bm_data = data (heap s ! a), bm_alpha = None\<rparr>) \<and>
         (mode (heap s ! a) \<noteq> ''RGB'' \<longrightarrow>
            clipboard (OnCopy ext s self True) =
              Some \<lparr>bm_width = width (Image_convert ext (heap s ! a) ''RGB''),
                    bm_height = height (Image_convert ext (heap s ! a) ''RGB''),
                    bm_data = data (Image_convert ext (heap s ! a) ''RGB''),
                    bm_alpha = None\<rparr>) \<and>
         heap (OnCopy ext s self True) = heap s \<and>
         canvases (OnCopy ext s self True) = canvases s \<and>
         OnCopy ext s self False = s"
  using assms by (simp add: OnCopy_def Let_def)

lemma example_rembg_output:
  "rembg_remove example_externals (frombytes_RGB example_bitmap) =
     Inr \<lparr>mode = ''RGBA'', width = 4, height = 3,
          data = [255, 255, 255, 0] @ concat (replicate 11 [90, 90, 90, 255])\<rparr>"
  by code_simp

lemma example_rgb_of_output:
  "convert_example
     \<lparr>mode = ''RGBA'', width = 4, height = 3,
      data = [255, 255, 255, 0] @ concat (replicate 11 [90, 90, 90, 255])\<rparr> ''RGB'' =
     \<lparr>mode = ''RGB'', width = 4, height = 3,
      data = [255, 255, 255] @ concat (replicate 11 [90, 90, 90])\<rparr>"
  by code_simp

lemma example_processed_result:
  "heap example_processed ! 3 =
     \<lparr>mode = ''RGBA'', width = 4, height = 3,
      data = [255, 255, 255, 0] @ concat (replicate 11 [90, 90, 90, 255])\<rparr>"
proof -
  define r where "r = \<lparr>mode = ''RGBA'', width = 4, height = 3,
      data = [255, 255, 255, 0] @ concat (replicate 11 [90, 90, 90, 255])\<rparr>"
  have o: "rembg_remove example_externals (frombytes_RGB example_bitmap) = Inr r"
    unfolding r_def by (rule example_rembg_output)
  have "heap example_processed ! 3 = r"
    by (simp add: example_processed_def on_remove_background_def
          resize_image_with_aspect_ratio_def remove_background_def save_final_image_def
          Let_def example_loaded_fields o)
  then show ?thesis unfolding r_def .
qed

text \<open>
  The claim as stated fails for an RGBA source: the result image of the example has a
  transparent white pixel, and the copy on the clipboard has three bytes per pixel, the
  alpha channel gone.
\<close>

theorem copy_counterexample:
  "source_pil_image (canvases example_processed right_canvas) = Some 3 \<and>
   data (heap example_processed ! 3)
     = [255, 255, 255, 0] @ concat (replicate 11 [90, 90, 90, 255]) \<and>
   clipboard (OnCopy example_externals example_processed right_canvas True)
     = Some \<lparr>bm_width = 4, bm_height = 3,
             bm_data = [255, 255, 255] @ concat (replicate 11 [90, 90, 90]),
             bm_alpha = None\<rparr> \<and>
   [255, 255, 255] @ concat (replicate 11 [90, 90, 90])
     \<noteq> data (heap example_processed ! 3)"
proof -
  define r where "r = \<lparr>mode = ''RGBA'', width = 4, height = 3,
      data = [255, 255, 255, 0] @ concat (replicate 11 [90, 90, 90, (255::nat)])\<rparr>"
  define q where "q = \<lparr>mode = ''RGB'', width = 4, height = 3,
      data = [255, 255, 255] @ concat (replicate 11 [90, 90, (90::nat)])\<rparr>"
  have hr: "heap example_processed ! 3 = r"
    unfolding r_def by (rule example_processed_result)
  have cq: "convert_example r ''RGB'' = q"
    unfolding r_def q_def by (rule example_rgb_of_output)
  have mr: "mode r \<noteq> ''RGB''" by (simp add: r_def)
  have s: "source_pil_image (canvases example_processed right_canvas) = Some 3"
    by (simp add: example_processed_fields)
  have c: "clipboard (OnCopy example_externals example_processed right_canvas True)
     = Some \<lparr>bm_width = width q, bm_height = height q, bm_data = data q, bm_alpha = None\<rparr>"
    by (simp add: OnCopy_def Let_def s hr cq mr)
  have n: "data q \<noteq> data r"
    unfolding q_def r_def by code_simp
  show ?thesis
    using s c n unfolding hr unfolding q_def r_def by simp
qed

theorem copy_exports_rgb_of_source_witness:
  "source_pil_image (canvases (OnMouseWheel example_externals example_processed right_canvas
                                 (ctrl_wheel 120 1 1)) right_canvas) = Some 3 \<and>
   zoom_level (canvases (OnMouseWheel example_externals example_processed right_canvas
                           (ctrl_wheel 120 1 1)) right_canvas) = 1.1 \<and>
   mode (heap (OnMouseWheel example_externals example_processed right_canvas
                 (ctrl_wheel 120 1 1)) ! 3) = ''RGBA'' \<and>
   clipboard (OnCopy example_externals
                (OnMouseWheel example_externals example_processed right_canvas (ctrl_wheel 120 1 1))
                right_canvas True)
     = Some \<lparr>bm_width = 4, bm_height = 3,
             bm_data = [255, 255, 255] @ concat (replicate 11 [90, 90, 90]),
             bm_alpha = None\<rparr> \<and>
   OnCopy example_externals
     (OnMouseWheel example_externals example_processed right_canvas (ctrl_wheel 120 1 1))
     right_canvas False
   = OnMouseWheel example_externals example_processed right_canvas (ctrl_wheel 120 1 1)"
proof -
  let ?e = "ctrl_wheel 120 1 1"
  let ?Z = "OnMouseWheel example_externals example_processed right_canvas ?e"
  define r where "r = \<lparr>mode = ''RGBA'', width = 4, height = 3,
      data = [255, 255, 255, 0] @ concat (replicate 11 [90, 90, 90, (255::nat)])\<rparr>"
  define q where "q = \<lparr>mode = ''RGB'', width = 4, height = 3,
      data = [255, 255, 255] @ concat (replicate 11 [90, 90, (90::nat)])\<rparr>"
  have hr: "heap ?Z ! 3 = r"
    unfolding r_def by (simp add: example_processed_result del: append.simps)
  have cq: "Image_convert example_externals r ''RGB'' = q"
    unfolding r_def q_def by (simp add: example_rgb_of_output del: append.simps)
  have mr: "mode r \<noteq> ''RGB''" "mode r = ''RGBA''" by (simp_all add: r_def)
  have h: "source_pil_image (canvases ?Z right_canvas) = Some 3"
    by (simp add: example_processed_fields)
  have w: "wheel_zoom example_externals (canvases example_processed right_canvas) ?e = 1.1"
    by (simp add: wheel_zoom_def example_processed_fields)
  have c: "ControlDown ?e" by simp
  have n: "wheel_zoom example_externals (canvases example_processed right_canvas) ?e
             \<noteq> zoom_level (canvases example_processed right_canvas)"
    by (simp add: w example_processed_fields)
  have z: "zoom_level (canvases example_processed right_canvas) \<noteq> 0"
    by (simp add: example_processed_fields)
  have f: "zoom_level (canvases ?Z right_canvas) = 1.1"
    unfolding OnMouseWheel_zoomed_fields[OF c n z] w by simp
  note t = copy_exports_rgb_of_source [OF h, of example_externals]
  have k: "clipboard (OnCopy example_externals ?Z right_canvas True)
             = Some \<lparr>bm_width = width q, bm_height = height q, bm_data = data q, bm_alpha = None\<rparr>"
    using t mr(1) unfolding hr cq by blast
  have u: "OnCopy example_externals ?Z right_canvas False = ?Z"
    using t by blast
  have m: "mode (heap ?Z ! 3) = ''RGBA''" unfolding hr by (rule mr(2))
  have q': "width q = 4" "height q = 3"
    "data q = [255, 255, 255] @ concat (replicate 11 [90, 90, 90])"
    by (simp_all add: q_def)
  show ?thesis
    using h f m k u unfolding q' by blast
qed

section \<open>Background removal\<close>








section \<open>Installed images are private\<close>

lemma unchanged_preserves:
  assumes "heap s' = heap s" and "original_image s' = original_image s"
    and "processed_image s' = processed_image s"
    and "\<And>c. source_pil_image (canvases s' c) = source_pil_image (canvases s c)"
  shows "sources_private s \<Longrightarrow> sources_private s'"
    and "private_cell s a \<Longrightarrow> private_cell s' a"
  unfolding sources_private_def owns_def allocated_def private_cell_def assms by simp_all

lemma install_original_private:
  assumes "private_cell s a"
  shows "private_cell (install_original ext s im) a"
    and "heap (install_original ext s im) ! a = heap s ! a"
  using assms by (simp_all add: private_cell_def nth_append)

lemma install_original_sources_private:
  assumes "sources_private s"
  shows "sources_private (install_original ext s im)"
proof -
  have l: "owns (install_original ext s im) left_canvas"
    using assms
    by (auto simp add: owns_def private_cell_def sources_private_def allocated_def
          split: option.splits)
  have r: "owns (install_original ext s im) right_canvas"
    using assms
    by (auto simp add: owns_def private_cell_def sources_private_def allocated_def
          split: option.splits)
  have a: "allocated (install_original ext s im) (original_image (install_original ext s im))"
    "allocated (install_original ext s im) (processed_image (install_original ext s im))"
    using assms by (auto simp add: sources_private_def allocated_def split: option.splits)
  show ?thesis using l r a by (simp add: sources_private_def)
qed

lemma on_remove_background_without_image:
  "original_image s = None \<Longrightarrow>
     on_remove_background ext s ts =
       s\<lparr>message_boxes := message_boxes s @ [''Please load an image first.'']\<rparr>"
  by (simp add: on_remove_background_def)

lemma on_remove_background_private:
  assumes sp: "sources_private s" and pa: "private_cell s a"
  shows "private_cell (on_remove_background ext s ts) a \<and>
         heap (on_remove_background ext s ts) ! a = heap s ! a"
proof (cases "original_image s")
  case None
  show ?thesis
    unfolding on_remove_background_without_image[OF None]
    using pa by (simp add: private_cell_def)
next
  case (Some original)
  let ?s' = "on_remove_background ext s ts"
  let ?h1 = "(heap s)[original := Image_thumbnail ext (heap s ! original) (1280, 1280)]"
  have ne: "a \<noteq> original" and lt: "a < length (heap s)"
    and np: "processed_image s \<noteq> Some a"
    using pa Some by (auto simp add: private_cell_def)
  from on_remove_background_outcomes[OF Some, of ext ts]
  consider (stopped) "heap ?s' = heap s \<or> heap ?s' = ?h1"
      "original_image ?s' = original_image s" "processed_image ?s' = processed_image s"
    | (shown) h2 p where "remove_background ext ?h1 original False = Inr (h2, p)"
      "heap ?s' = h2 @ [h2 ! p]" "original_image ?s' = original_image s"
      "processed_image ?s' = Some p"
    by blast
  then show ?thesis
  proof cases
    case stopped
    have "heap ?s' ! a = heap s ! a \<and> length (heap ?s') = length (heap s)"
      using stopped(1) ne by auto
    then show ?thesis
      using stopped(2,3) pa by (simp add: private_cell_def)
  next
    case shown
    from remove_background_cases[OF shown(1)]
    have h2: "(h2 = ?h1 \<and> p = original) \<or>
              (\<exists>r. h2 = ?h1 @ [r] \<and> p = length ?h1)"
      by blast
    then have "h2 ! a = heap s ! a \<and> a < length h2 \<and> p \<noteq> a"
      using ne lt by (auto simp add: nth_append)
    then show ?thesis
      using shown(2,3,4) Some ne by (simp add: private_cell_def nth_append)
  qed
qed

lemma owns_kept:
  assumes "owns s c" and "source_pil_image (canvases s' c) = source_pil_image (canvases s c)"
    and "\<And>a. private_cell s a \<Longrightarrow> private_cell s' a"
  shows "owns s' c"
  using assms by (auto simp add: owns_def split: option.splits)

lemma on_remove_background_sources_private:
  assumes sp: "sources_private s"
  shows "sources_private (on_remove_background ext s ts)"
proof (cases "original_image s")
  case None
  show ?thesis
    unfolding on_remove_background_without_image[OF None]
    by (rule unchanged_preserves(1)[OF _ _ _ _ sp]) simp_all
next
  case (Some original)
  let ?s' = "on_remove_background ext s ts"
  let ?h1 = "(heap s)[original := Image_thumbnail ext (heap s ! original) (1280, 1280)]"
  have keep: "\<And>a. private_cell s a \<Longrightarrow> private_cell ?s' a"
    using on_remove_background_private[OF sp] by blast
  have ol: "original < length (heap s)"
    using sp Some by (simp add: sources_private_def allocated_def)
  have pl: "allocated s (processed_image s)"
    using sp by (simp add: sources_private_def)
  have own: "owns s left_canvas" "owns s right_canvas"
    using sp by (simp_all add: sources_private_def)
  from on_remove_background_outcomes[OF Some, of ext ts]
  consider (stopped) "heap ?s' = heap s \<or> heap ?s' = ?h1"
      "original_image ?s' = original_image s" "processed_image ?s' = processed_image s"
      "canvases ?s' = canvases s"
    | (shown) h2 p where "remove_background ext ?h1 original False = Inr (h2, p)"
      "heap ?s' = h2 @ [h2 ! p]" "original_image ?s' = original_image s"
      "processed_image ?s' = Some p"
      "canvases ?s' left_canvas = canvases s left_canvas"
      "source_pil_image (canvases ?s' right_canvas) = Some (length h2)"
    by blast
  then show ?thesis
  proof cases
    case stopped
    have len: "length (heap ?s') = length (heap s)" using stopped(1) by auto
    have "allocated ?s' (original_image ?s')" "allocated ?s' (processed_image ?s')"
      using stopped(2,3) len ol Some pl by (simp_all add: allocated_def split: option.splits)
    moreover have "owns ?s' left_canvas" "owns ?s' right_canvas"
      using own keep stopped(4) by (auto intro: owns_kept)
    ultimately show ?thesis by (simp add: sources_private_def)
  next
    case shown
    from remove_background_cases[OF shown(1)]
    have h2: "(h2 = ?h1 \<and> p = original) \<or>
              (\<exists>r. h2 = ?h1 @ [r] \<and> p = length ?h1)"
      by blast
    then have p: "p < length h2" and o: "original < length h2"
      using ol by auto
    have "allocated ?s' (original_image ?s')" "allocated ?s' (processed_image ?s')"
      using shown(2,3,4) Some p o by (simp_all add: allocated_def)
    moreover have "owns ?s' left_canvas"
      using own(1) keep shown(5) by (auto intro: owns_kept)
    moreover have "owns ?s' right_canvas"
      using shown(2,3,4,6) Some p o by (simp add: owns_def private_cell_def)
    ultimately show ?thesis by (simp add: sources_private_def)
  qed
qed

lemma OnMouseDown_frame [simp]:
  "original_image (OnMouseDown s self event) = original_image s"
  "processed_image (OnMouseDown s self event) = processed_image s"
  by (simp_all add: OnMouseDown_def Let_def)

lemma OnMouseUp_frame [simp]:
  "heap (OnMouseUp s self event) = heap s"
  "original_image (OnMouseUp s self event) = original_image s"
  "processed_image (OnMouseUp s self event) = processed_image s"
  "source_pil_image (canvases (OnMouseUp s self event) c) = source_pil_image (canvases s c)"
  by (simp_all add: OnMouseUp_def)

text \<open>
  Every event either leaves the store, the frame's image attributes and the sources of
  the canvases as they are, or installs a new original image, or is the remove button.
\<close>

lemma dispatch_kinds:
  "(heap (dispatch ext s e) = heap s \<and>
    original_image (dispatch ext s e) = original_image s \<and>
    processed_image (dispatch ext s e) = processed_image s \<and>
    (\<forall>c. source_pil_image (canvases (dispatch ext s e) c) = source_pil_image (canvases s c)))
   \<or> (\<exists>im. dispatch ext s e = install_original ext s im)
   \<or> (\<exists>ts. dispatch ext s e = on_remove_background ext s ts)"
proof (cases e)
  case (Menu_paste opens)
  then show ?thesis by (auto simp add: OnPaste_def split: option.splits)
next
  case (Dropped d)
  then show ?thesis
    by (auto simp add: OnData_def split: drop_data.splits list.splits sum.splits)
next
  case (Load_button chosen)
  then show ?thesis
    by (auto simp add: on_load_image_def split: option.splits sum.splits)
next
  case (Remove_button ts)
  then show ?thesis by auto
qed simp_all

lemma dispatch_private:
  assumes sp: "sources_private s" and pa: "private_cell s a"
  shows "private_cell (dispatch ext s e) a \<and> heap (dispatch ext s e) ! a = heap s ! a"
proof -
  from dispatch_kinds[of ext s e]
  consider (same) "heap (dispatch ext s e) = heap s"
      "original_image (dispatch ext s e) = original_image s"
      "processed_image (dispatch ext s e) = processed_image s"
    | (install) im where "dispatch ext s e = install_original ext s im"
    | (remove) ts where "dispatch ext s e = on_remove_background ext s ts"
    by blast
  then show ?thesis
  proof cases
    case same
    then show ?thesis using pa by (simp add: private_cell_def)
  next
    case install
    show ?thesis unfolding install using install_original_private[OF pa] by blast
  next
    case remove
    show ?thesis unfolding remove by (rule on_remove_background_private[OF sp pa])
  qed
qed

lemma dispatch_sources_private:
  assumes sp: "sources_private s"
  shows "sources_private (dispatch ext s e)"
proof -
  from dispatch_kinds[of ext s e]
  consider (same) "heap (dispatch ext s e) = heap s"
      "original_image (dispatch ext s e) = original_image s"
      "processed_image (dispatch ext s e) = processed_image s"
      "\<And>c. source_pil_image (canvases (dispatch ext s e) c) = source_pil_image (canvases s c)"
    | (install) im where "dispatch ext s e = install_original ext s im"
    | (remove) ts where "dispatch ext s e = on_remove_background ext s ts"
    by blast
  then show ?thesis
  proof cases
    case same
    show ?thesis by (rule unchanged_preserves(1)[OF same sp])
  next
    case install
    show ?thesis unfolding install by (rule install_original_sources_private[OF sp])
  next
    case remove
    show ?thesis unfolding remove by (rule on_remove_background_sources_private[OF sp])
  qed
qed

lemma run_private:
  "sources_private s \<Longrightarrow> private_cell s a \<Longrightarrow>
     sources_private (run ext s es) \<and> private_cell (run ext s es) a \<and>
     heap (run ext s es) ! a = heap s ! a"
proof (induction es arbitrary: s)
  case Nil
  then show ?case by simp
next
  case (Cons e es)
  have 1: "sources_private (dispatch ext s e)"
    by (rule dispatch_sources_private[OF Cons.prems(1)])
  have 2: "private_cell (dispatch ext s e) a" "heap (dispatch ext s e) ! a = heap s ! a"
    using dispatch_private[OF Cons.prems] by blast+
  show ?case using Cons.IH[OF 1 2(1)] 2(2) by simp
qed

lemma installed_is_private:
  "sources_private s \<Longrightarrow> source_pil_image (canvases s c) = Some a \<Longrightarrow> private_cell s a"
  by (cases c) (simp_all add: sources_private_def owns_def)

lemma init_state_sources_private: "sources_private init_state"
  by (simp add: sources_private_def owns_def allocated_def)

text \<open>
  C9, as the code has it. The source image of a canvas is a private copy: from a state
  in which the sources of the canvases are private cells, as in the initial state and
  ever after, no sequence of events (drops, pastes and loads of other images, background
  removal with its resize, wheel and drag events with their rendering, copies) changes
  the cell of an image that a canvas holds, and the sources stay private. Nothing is
  asserted about the resize returning a new object.
\<close>

theorem installed_image_never_mutated:
  assumes "sources_private s" and "source_pil_image (canvases s c) = Some a"
  shows "heap (run ext s es) ! a = heap s ! a \<and>
         sources_private (run ext s es) \<and>
         sources_private init_state"
  using run_private[OF assms(1) installed_is_private[OF assms], of ext es]
    init_state_sources_private
  by blast

theorem installed_image_never_mutated_witness:
  "sources_private example_loaded \<and>
   source_pil_image (canvases example_loaded left_canvas) = Some 1 \<and>
   heap example_loaded ! 1 = frombytes_RGB example_bitmap \<and>
   heap (run example_externals example_loaded
           [Remove_button ''20240101_120000'',
            EVT_MOUSEWHEEL left_canvas (ctrl_wheel 120 1 1),
            Dropped (DF_BITMAP example_bitmap)]) ! 1 = frombytes_RGB example_bitmap"
proof -
  have p: "sources_private example_loaded"
    by (simp add: sources_private_def owns_def allocated_def private_cell_def
          example_loaded_fields)
  have s: "source_pil_image (canvases example_loaded left_canvas) = Some 1"
    by (simp add: example_loaded_fields)
  have h: "heap example_loaded ! 1 = frombytes_RGB example_bitmap"
    by (simp add: example_loaded_fields)
  show ?thesis
    using installed_image_never_mutated [OF p s, of example_externals
      "[Remove_button ''20240101_120000'',
        EVT_MOUSEWHEEL left_canvas (ctrl_wheel 120 1 1),
        Dropped (DF_BITMAP example_bitmap)]"] p s h
    by simp
qed

text \<open>
  The claim as stated fails: the resize does not return a new image. It overwrites the
  object it is given and returns that same object.
\<close>

theorem resize_counterexample:
  "snd (resize_image_with_aspect_ratio example_externals
          [\<lparr>mode = ''RGB'', width = 4, height = 2,
            data = [10, 10, 10, 11, 11, 11, 12, 12, 12, 13, 13, 13,
                    14, 14, 14, 15, 15, 15, 16, 16, 16, 17, 17, 17]\<rparr>] 0 (2, 2)) = 0 \<and>
   length (fst (resize_image_with_aspect_ratio example_externals
          [\<lparr>mode = ''RGB'', width = 4, height = 2,
            data = [10, 10, 10, 11, 11, 11, 12, 12, 12, 13, 13, 13,
                    14, 14, 14, 15, 15, 15, 16, 16, 16, 17, 17, 17]\<rparr>] 0 (2, 2))) = 1 \<and>
   width (fst (resize_image_with_aspect_ratio example_externals
          [\<lparr>mode = ''RGB'', width = 4, height = 2,
            data = [10, 10, 10, 11, 11, 11, 12, 12, 12, 13, 13, 13,
                    14, 14, 14, 15, 15, 15, 16, 16, 16, 17, 17, 17]\<rparr>] 0 (2, 2)) ! 0) = 2 \<and>
   height (fst (resize_image_with_aspect_ratio example_externals
          [\<lparr>mode = ''RGB'', width = 4, height = 2,
            data = [10, 10, 10, 11, 11, 11, 12, 12, 12, 13, 13, 13,
                    14, 14, 14, 15, 15, 15, 16, 16, 16, 17, 17, 17]\<rparr>] 0 (2, 2)) ! 0) = 1"
  by code_simp

end
